theory Spec2Isabelle
  imports Main "HOL-Library.Word"
begin

section \<open>Data model of BRSyncManager.c\<close>

text \<open>
  The sync manager is embedded function by function. Every operation takes the manager
  state and returns either a fault (a failed \<open>assert\<close>, a NULL dereference, a signed
  overflow) or the new state together with the callbacks it invoked, in invocation order.
  The mutex only serialises the operations; each operation is modelled as one atomic step
  and \<open>pthread_mutex_lock\<close> is taken to succeed.
\<close>

type_synonym uint8_t = "8 word"
type_synonym uint32_t = "32 word"
type_synonym uint64_t = "64 word"
type_synonym UInt256 = "256 word"

text \<open>\<open>BRAddress\<close> is a NUL-terminated character array compared by \<open>BRAddressEq\<close>
  as a string; \<open>BR_ADDRESS_NONE\<close> and a zeroed address are the empty string.\<close>

type_synonym BRAddress = string

definition BR_ADDRESS_NONE :: BRAddress where
  "BR_ADDRESS_NONE = []"

text \<open>The fields of \<open>BRTransaction\<close> the manager reads or writes; \<open>txBody\<close> stands for
  the inputs and outputs, which the manager never inspects.\<close>

record BRTransaction =
  txHash :: UInt256
  blockHeight :: uint32_t
  timestamp :: uint32_t
  txBody :: "uint8_t list"

datatype BRSyncDepth = SYNC_DEPTH_LOW | SYNC_DEPTH_MEDIUM | SYNC_DEPTH_HIGH

datatype BRPeerStatus = BRPeerStatusDisconnected | BRPeerStatusConnecting | BRPeerStatusConnected

text \<open>The events the modelled operations construct. The payload of \<open>SYNC_STOPPED\<close> is
  \<open>syncStopped.reason\<close>, that of \<open>BLOCK_HEIGHT_UPDATED\<close> is \<open>blockHeightUpdated.value\<close>,
  that of \<open>TXN_SUBMITTED\<close> is \<open>submitted.{transaction, error}\<close>.\<close>

datatype BRSyncManagerEvent =
    SYNC_MANAGER_CONNECTED
  | SYNC_MANAGER_DISCONNECTED
  | SYNC_MANAGER_SYNC_STARTED
  | SYNC_MANAGER_SYNC_STOPPED int
  | SYNC_MANAGER_BLOCK_HEIGHT_UPDATED uint64_t
  | SYNC_MANAGER_TXNS_UPDATED
  | SYNC_MANAGER_TXN_SUBMITTED BRTransaction int

text \<open>One entry per invocation of \<open>manager->eventCallback\<close> or of a member of
  \<open>manager->clientCallbacks\<close>; the last argument of a client callback is the request id.\<close>

datatype callback =
    eventCallback BRSyncManagerEvent
  | funcGetBlockNumber int
  | funcGetTransactions "BRAddress list" uint64_t uint64_t int
  | funcSubmitTransaction "uint8_t list" UInt256 int

datatype fault = AssertionFailed | NullDereference | SignedOverflow

text \<open>
  The wallet, the chain parameters, the transaction codec and three macros are declared
  in headers outside BRSyncManager.c. They are parameters of the model: \<open>'w\<close> is the
  state of the \<open>BRWallet\<close> behind the borrowed pointer, and every wallet function that may
  mutate it returns the new wallet.
  \<^item> \<open>BRWalletUnusedAddrs w hasBuffer gapLimit internal\<close>: the wallet afterwards and the
    addresses the call writes when a buffer is given (\<open>hasBuffer\<close> is False for the
    calls that pass NULL);
  \<^item> \<open>BRChainParamsGetCheckpointBefore t\<close> and \<open>BRChainParamsGetCheckpointBeforeBlockNumber h\<close>:
    the \<open>height\<close> of the checkpoint found, widened to 64 bits as the manager uses it, or
    None for NULL;
  \<^item> \<open>BRTransactionParse\<close>: None for NULL.
\<close>

record 'w collaborators =
  SEQUENCE_GAP_LIMIT_EXTERNAL :: nat
  SEQUENCE_GAP_LIMIT_INTERNAL :: nat
  TX_UNCONFIRMED :: uint32_t
  BRChainParamsGetCheckpointBefore :: "uint32_t \<Rightarrow> uint64_t option"
  BRChainParamsGetCheckpointBeforeBlockNumber :: "uint64_t \<Rightarrow> uint64_t option"
  BRWalletUnusedAddrs :: "'w \<Rightarrow> bool \<Rightarrow> nat \<Rightarrow> bool \<Rightarrow> 'w \<times> BRAddress list"
  BRWalletAllAddrs :: "'w \<Rightarrow> BRAddress list"
  BRWalletAddressToLegacy :: "'w \<Rightarrow> BRAddress \<Rightarrow> BRAddress"
  BRWalletTransactions :: "'w \<Rightarrow> BRTransaction list"
  BRWalletTransactionIsValid :: "'w \<Rightarrow> BRTransaction \<Rightarrow> bool"
  BRWalletAmountSentByTx :: "'w \<Rightarrow> BRTransaction \<Rightarrow> uint64_t"
  BRWalletTransactionForHash :: "'w \<Rightarrow> UInt256 \<Rightarrow> BRTransaction option"
  BRWalletRegisterTransaction :: "'w \<Rightarrow> BRTransaction \<Rightarrow> 'w"
  BRWalletUpdateTransactions :: "'w \<Rightarrow> UInt256 list \<Rightarrow> uint32_t \<Rightarrow> uint32_t \<Rightarrow> 'w"
  BRTransactionParse :: "uint8_t list \<Rightarrow> BRTransaction option"
  BRTransactionIsSigned :: "BRTransaction \<Rightarrow> bool"
  BRTransactionSerialize :: "BRTransaction \<Rightarrow> uint8_t list"

definition ONE_WEEK_IN_SECONDS :: uint32_t where
  "ONE_WEEK_IN_SECONDS = 7 * 24 * 60 * 60"

definition CONFIRMATION_BLOCK_COUNT :: uint32_t where
  "CONFIRMATION_BLOCK_COUNT = 6"

definition BWM_MINUTES_PER_BLOCK :: nat where
  "BWM_MINUTES_PER_BLOCK = 10"

definition BWM_BRD_SYNC_DAYS_OFFSET :: nat where
  "BWM_BRD_SYNC_DAYS_OFFSET = 1"

definition BWM_BRD_SYNC_START_BLOCK_OFFSET :: uint64_t where
  "BWM_BRD_SYNC_START_BLOCK_OFFSET =
     of_nat ((BWM_BRD_SYNC_DAYS_OFFSET * 24 * 60) div BWM_MINUTES_PER_BLOCK)"

definition INT_MAX :: int where
  "INT_MAX = 2147483647"

text \<open>\<open>knownAddresses\<close> is a pointer to a \<open>BRSet\<close> keyed by the address string: None is
  NULL, and the set is kept as the list of its elements in insertion order (the hash
  table's own iteration order is not modelled). \<open>isFullScan\<close> only ever holds the result
  of a comparison or zero.\<close>

record BRClientSyncManagerScanStateRecord =
  requestId :: int
  lastExternalAddress :: BRAddress
  lastInternalAddress :: BRAddress
  knownAddresses :: "BRAddress list option"
  begBlockNumber :: uint64_t
  endBlockNumber :: uint64_t
  isFullScan :: bool

record 'w BRClientSyncManagerStruct =
  wallet :: 'w
  initBlockHeight :: uint64_t
  networkBlockHeight :: uint64_t
  isConnected :: bool
  syncedBlockHeight :: uint64_t
  requestIdGenerator :: int
  scanState :: BRClientSyncManagerScanStateRecord

text \<open>The mutable fields of \<open>BRPeerSyncManagerStruct\<close>; the names carry the prefix
  \<open>peer\<close> to keep them apart from the client manager's.\<close>

record BRPeerSyncManagerStruct =
  peerNetworkBlockHeight :: uint64_t
  peerIsConnected :: bool
  peerIsFullScan :: bool

type_synonym 's outcome = "fault + ('s \<times> callback list)"

text \<open>Sequencing of two operations: a fault aborts, otherwise the callbacks are appended.\<close>

definition andThen :: "'s outcome \<Rightarrow> ('s \<Rightarrow> 's outcome) \<Rightarrow> 's outcome" where
  "andThen r f =
     (case r of
        Inl e \<Rightarrow> Inl e
      | Inr (s, out) \<Rightarrow>
          (case f s of
             Inl e \<Rightarrow> Inl e
           | Inr (s', out') \<Rightarrow> Inr (s', out @ out')))"

section \<open>Shared helper\<close>

text \<open>The loop of \<open>_getLastConfirmedSendTxHeight\<close>, with \<open>scanHeight\<close> as accumulator.\<close>

fun lastConfirmedSendLoop ::
  "'w collaborators \<Rightarrow> 'w \<Rightarrow> uint32_t \<Rightarrow> uint32_t \<Rightarrow> BRTransaction list \<Rightarrow> uint32_t" where
  "lastConfirmedSendLoop env w lastBlockHeight scanHeight [] = scanHeight"
| "lastConfirmedSendLoop env w lastBlockHeight scanHeight (tx # txs) =
     lastConfirmedSendLoop env w lastBlockHeight
       (if BRWalletTransactionIsValid env w tx \<and>
           0 \<noteq> BRWalletAmountSentByTx env w tx \<and>
           TX_UNCONFIRMED env \<noteq> blockHeight tx \<and>
           blockHeight tx < lastBlockHeight - CONFIRMATION_BLOCK_COUNT
        then (if blockHeight tx > scanHeight then blockHeight tx else scanHeight)
        else scanHeight)
       txs"

definition getLastConfirmedSendTxHeight ::
  "'w collaborators \<Rightarrow> 'w \<Rightarrow> uint32_t \<Rightarrow> uint32_t" where
  "getLastConfirmedSendTxHeight env w lastBlockHeight =
     (if lastBlockHeight \<ge> CONFIRMATION_BLOCK_COUNT \<and> 0 \<noteq> length (BRWalletTransactions env w)
      then lastConfirmedSendLoop env w lastBlockHeight 0 (BRWalletTransactions env w)
      else 0)"

section \<open>Scan state\<close>

definition BRClientSyncManagerScanStateWipe ::
  "BRClientSyncManagerScanStateRecord \<Rightarrow> BRClientSyncManagerScanStateRecord" where
  "BRClientSyncManagerScanStateWipe ss =
     \<lparr> requestId = 0, lastExternalAddress = [], lastInternalAddress = [],
       knownAddresses = None, begBlockNumber = 0, endBlockNumber = 0, isFullScan = False \<rparr>"

definition BRClientSyncManagerScanStateIsInProgress ::
  "BRClientSyncManagerScanStateRecord \<Rightarrow> bool" where
  "BRClientSyncManagerScanStateIsInProgress ss = (0 \<noteq> requestId ss)"

definition BRClientSyncManagerScanStateIsFullScan ::
  "BRClientSyncManagerScanStateRecord \<Rightarrow> bool" where
  "BRClientSyncManagerScanStateIsFullScan ss = isFullScan ss"

definition BRClientSyncManagerScanStateGetRequestId ::
  "BRClientSyncManagerScanStateRecord \<Rightarrow> int" where
  "BRClientSyncManagerScanStateGetRequestId ss = requestId ss"

definition BRClientSyncManagerScanStateGetStartBlockNumber ::
  "BRClientSyncManagerScanStateRecord \<Rightarrow> uint64_t" where
  "BRClientSyncManagerScanStateGetStartBlockNumber ss = begBlockNumber ss"

definition BRClientSyncManagerScanStateGetEndBlockNumber ::
  "BRClientSyncManagerScanStateRecord \<Rightarrow> uint64_t" where
  "BRClientSyncManagerScanStateGetEndBlockNumber ss = endBlockNumber ss"

definition BRClientSyncManagerScanStateGetSyncedBlockNumber ::
  "BRClientSyncManagerScanStateRecord \<Rightarrow> uint64_t" where
  "BRClientSyncManagerScanStateGetSyncedBlockNumber ss = endBlockNumber ss - 1"

text \<open>\<open>_getWalletAddresses\<close>: the wallet's addresses followed by their legacy forms.\<close>

definition getWalletAddresses :: "'w collaborators \<Rightarrow> 'w \<Rightarrow> BRAddress list" where
  "getWalletAddresses env w =
     BRWalletAllAddrs env w @ map (BRWalletAddressToLegacy env w) (BRWalletAllAddrs env w)"

text \<open>The loop of \<open>_fillWalletAddressSet\<close> over the address array.\<close>

fun fillAddressSetLoop :: "BRAddress list \<Rightarrow> BRAddress list \<Rightarrow> BRAddress list" where
  "fillAddressSetLoop addresses [] = addresses"
| "fillAddressSetLoop addresses (a # addressArray) =
     fillAddressSetLoop (if a \<notin> set addresses then addresses @ [a] else addresses) addressArray"

definition fillWalletAddressSet ::
  "'w collaborators \<Rightarrow> BRAddress list \<Rightarrow> 'w \<Rightarrow> BRAddress list" where
  "fillWalletAddressSet env addresses w = fillAddressSetLoop addresses (getWalletAddresses env w)"

text \<open>The loop of \<open>_updateWalletAddressSet\<close>: the set and the array of new addresses.\<close>

fun updateAddressSetLoop ::
  "BRAddress list \<Rightarrow> BRAddress list \<Rightarrow> BRAddress list \<Rightarrow> BRAddress list \<times> BRAddress list" where
  "updateAddressSetLoop addresses newAddresses [] = (addresses, newAddresses)"
| "updateAddressSetLoop addresses newAddresses (a # addressArray) =
     (if a \<notin> set addresses
      then updateAddressSetLoop (addresses @ [a]) (newAddresses @ [a]) addressArray
      else updateAddressSetLoop addresses newAddresses addressArray)"

definition updateWalletAddressSet ::
  "'w collaborators \<Rightarrow> BRAddress list \<Rightarrow> 'w \<Rightarrow> BRAddress list \<times> BRAddress list" where
  "updateWalletAddressSet env addresses w =
     updateAddressSetLoop addresses [] (getWalletAddresses env w)"

text \<open>A call of \<open>BRWalletUnusedAddrs (wallet, &addr, 1, internal)\<close>: the address is
  overwritten only when the wallet writes one.\<close>

definition firstUnusedAddress ::
  "'w collaborators \<Rightarrow> 'w \<Rightarrow> bool \<Rightarrow> BRAddress \<Rightarrow> 'w \<times> BRAddress" where
  "firstUnusedAddress env w internal addr =
     (case BRWalletUnusedAddrs env w True 1 internal of
        (w', []) \<Rightarrow> (w', addr)
      | (w', a # _) \<Rightarrow> (w', a))"

text \<open>The two calls with a NULL buffer that pre-generate addresses up to the gap limits.\<close>

definition generateAddresses :: "'w collaborators \<Rightarrow> 'w \<Rightarrow> 'w" where
  "generateAddresses env w =
     fst (BRWalletUnusedAddrs env
            (fst (BRWalletUnusedAddrs env w False (SEQUENCE_GAP_LIMIT_EXTERNAL env) False))
            False (SEQUENCE_GAP_LIMIT_INTERNAL env) True)"

definition BRClientSyncManagerScanStateInit ::
  "'w collaborators \<Rightarrow> BRClientSyncManagerScanStateRecord \<Rightarrow> 'w \<Rightarrow> uint64_t \<Rightarrow> uint64_t \<Rightarrow> int
     \<Rightarrow> fault + (BRClientSyncManagerScanStateRecord \<times> 'w)" where
  "BRClientSyncManagerScanStateInit env ss w syncedHeight networkHeight rid =
     (let endBlock = max syncedHeight networkHeight + 1;
          begBlock = min syncedHeight
                       (if endBlock \<ge> BWM_BRD_SYNC_START_BLOCK_OFFSET
                        then endBlock - BWM_BRD_SYNC_START_BLOCK_OFFSET else 0)
      in if \<not> endBlock > begBlock then Inl AssertionFailed
         else
           (let w1 = generateAddresses env w;
                (w2, extAddr) = firstUnusedAddress env w1 False (lastExternalAddress ss);
                (w3, intAddr) = firstUnusedAddress env w2 True (lastInternalAddress ss)
            in if knownAddresses ss \<noteq> None then Inl AssertionFailed
               else Inr (\<lparr> requestId = rid,
                           lastExternalAddress = extAddr,
                           lastInternalAddress = intAddr,
                           knownAddresses = Some (fillWalletAddressSet env [] w3),
                           begBlockNumber = begBlock,
                           endBlockNumber = endBlock,
                           isFullScan = (endBlock - begBlock > BWM_BRD_SYNC_START_BLOCK_OFFSET) \<rparr>,
                         w3)))"

definition BRClientSyncManagerScanStateGetAddresses ::
  "BRClientSyncManagerScanStateRecord \<Rightarrow> fault + BRAddress list" where
  "BRClientSyncManagerScanStateGetAddresses ss =
     (case knownAddresses ss of
        None \<Rightarrow> Inl NullDereference
      | Some addresses \<Rightarrow> Inr addresses)"

text \<open>The first statements of \<open>BRClientSyncManagerScanStateAdvanceAndGetNewAddresses\<close>:
  pre-generate addresses, then read the first unused external and internal address into
  locals initialised to \<open>BR_ADDRESS_NONE\<close>.\<close>

definition currentFirstUnused :: "'w collaborators \<Rightarrow> 'w \<Rightarrow> 'w \<times> BRAddress \<times> BRAddress" where
  "currentFirstUnused env w =
     (let w1 = generateAddresses env w;
          (w2, externalAddress) = firstUnusedAddress env w1 False BR_ADDRESS_NONE;
          (w3, internalAddress) = firstUnusedAddress env w2 True BR_ADDRESS_NONE
      in (w3, externalAddress, internalAddress))"

text \<open>The result is the scan state, the wallet and the array of new addresses (None for
  NULL). \<open>_updateWalletAddressSet\<close> dereferences the set, so a NULL set is a fault.\<close>

definition BRClientSyncManagerScanStateAdvanceAndGetNewAddresses ::
  "'w collaborators \<Rightarrow> BRClientSyncManagerScanStateRecord \<Rightarrow> 'w
     \<Rightarrow> fault + (BRClientSyncManagerScanStateRecord \<times> 'w \<times> BRAddress list option)" where
  "BRClientSyncManagerScanStateAdvanceAndGetNewAddresses env ss w =
     (case currentFirstUnused env w of
        (w3, externalAddress, internalAddress) \<Rightarrow>
          if externalAddress \<noteq> lastExternalAddress ss \<or>
             internalAddress \<noteq> lastInternalAddress ss
          then
            (case knownAddresses ss of
               None \<Rightarrow> Inl NullDereference
             | Some addresses \<Rightarrow>
                 (case updateWalletAddressSet env addresses w3 of
                    (addresses', newAddresses) \<Rightarrow>
                      Inr (ss \<lparr> lastExternalAddress := externalAddress,
                                lastInternalAddress := internalAddress,
                                knownAddresses := Some addresses' \<rparr>,
                           w3, Some newAddresses)))
          else Inr (ss, w3, None))"

section \<open>Client sync manager\<close>

text \<open>\<open>BRClientSyncManagerNew\<close>. The subtraction is done in \<open>uint32_t\<close> and wraps; the
  \<open>assert\<close> on the checkpoint is a fault when it fails.\<close>

definition BRClientSyncManagerNew ::
  "'w collaborators \<Rightarrow> 'w \<Rightarrow> uint32_t \<Rightarrow> uint64_t \<Rightarrow> fault + 'w BRClientSyncManagerStruct" where
  "BRClientSyncManagerNew env w earliestKeyTime blockHeightArg =
     (case BRChainParamsGetCheckpointBefore env (earliestKeyTime - ONE_WEEK_IN_SECONDS) of
        None \<Rightarrow> Inl AssertionFailed
      | Some checkPointHeight \<Rightarrow>
          Inr \<lparr> wallet = w,
                initBlockHeight = min checkPointHeight blockHeightArg,
                networkBlockHeight = max checkPointHeight blockHeightArg,
                isConnected = False,
                syncedBlockHeight = min checkPointHeight blockHeightArg,
                requestIdGenerator = 0,
                scanState = BRClientSyncManagerScanStateWipe
                  \<lparr> requestId = 0, lastExternalAddress = [], lastInternalAddress = [],
                    knownAddresses = None, begBlockNumber = 0, endBlockNumber = 0,
                    isFullScan = False \<rparr> \<rparr>)"

definition BRClientSyncManagerGetBlockHeight :: "'w BRClientSyncManagerStruct \<Rightarrow> uint64_t" where
  "BRClientSyncManagerGetBlockHeight manager = networkBlockHeight manager"

text \<open>\<open>++manager->requestIdGenerator\<close> on an \<open>int\<close>: incrementing \<open>INT_MAX\<close> is undefined
  behaviour and is a fault of the model.\<close>

definition BRClientSyncManagerGenerateRid ::
  "'w BRClientSyncManagerStruct \<Rightarrow> fault + (int \<times> 'w BRClientSyncManagerStruct)" where
  "BRClientSyncManagerGenerateRid manager =
     (if requestIdGenerator manager < INT_MAX
      then Inr (requestIdGenerator manager + 1,
                manager \<lparr> requestIdGenerator := requestIdGenerator manager + 1 \<rparr>)
      else Inl SignedOverflow)"

definition BRClientSyncManagerUpdateBlockNumber ::
  "'w BRClientSyncManagerStruct \<Rightarrow> 'w BRClientSyncManagerStruct outcome" where
  "BRClientSyncManagerUpdateBlockNumber manager =
     (if isConnected manager
      then (case BRClientSyncManagerGenerateRid manager of
              Inl e \<Rightarrow> Inl e
            | Inr (rid, manager') \<Rightarrow> Inr (manager', [funcGetBlockNumber rid]))
      else Inr (manager, []))"

definition BRClientSyncManagerUpdateTransactions ::
  "'w collaborators \<Rightarrow> 'w BRClientSyncManagerStruct \<Rightarrow> 'w BRClientSyncManagerStruct outcome" where
  "BRClientSyncManagerUpdateTransactions env manager =
     (if \<not> BRClientSyncManagerScanStateIsInProgress (scanState manager) \<and> isConnected manager
      then
        (case BRClientSyncManagerGenerateRid manager of
           Inl e \<Rightarrow> Inl e
         | Inr (rid, manager1) \<Rightarrow>
             (case BRClientSyncManagerScanStateInit env (scanState manager1) (wallet manager1)
                     (syncedBlockHeight manager1) (networkBlockHeight manager1) rid of
                Inl e \<Rightarrow> Inl e
              | Inr (ss, w) \<Rightarrow>
                  (case BRClientSyncManagerScanStateGetAddresses ss of
                     Inl e \<Rightarrow> Inl e
                   | Inr addresses \<Rightarrow>
                       if \<not> 0 \<noteq> length addresses then Inl AssertionFailed
                       else
                         Inr (manager1 \<lparr> wallet := w, scanState := ss \<rparr>,
                              (if BRClientSyncManagerScanStateIsFullScan ss
                               then [eventCallback SYNC_MANAGER_SYNC_STARTED] else []) @
                              [funcGetTransactions addresses
                                 (BRClientSyncManagerScanStateGetStartBlockNumber ss)
                                 (BRClientSyncManagerScanStateGetEndBlockNumber ss)
                                 (BRClientSyncManagerScanStateGetRequestId ss)]))))
      else Inr (manager, []))"

definition BRClientSyncManagerConnect ::
  "'w collaborators \<Rightarrow> 'w BRClientSyncManagerStruct \<Rightarrow> 'w BRClientSyncManagerStruct outcome" where
  "BRClientSyncManagerConnect env manager =
     andThen
       (andThen
          (if \<not> isConnected manager
           then Inr (manager \<lparr> isConnected := True \<rparr>, [eventCallback SYNC_MANAGER_CONNECTED])
           else Inr (manager, []))
          BRClientSyncManagerUpdateBlockNumber)
       (BRClientSyncManagerUpdateTransactions env)"

definition BRClientSyncManagerDisconnect ::
  "'w BRClientSyncManagerStruct \<Rightarrow> 'w BRClientSyncManagerStruct outcome" where
  "BRClientSyncManagerDisconnect manager =
     (if isConnected manager
      then Inr (manager \<lparr> isConnected := False,
                          scanState := BRClientSyncManagerScanStateWipe (scanState manager) \<rparr>,
                (if BRClientSyncManagerScanStateIsFullScan (scanState manager)
                 then [eventCallback (SYNC_MANAGER_SYNC_STOPPED (- 1))] else []) @
                [eventCallback SYNC_MANAGER_DISCONNECTED])
      else Inr (manager, []))"

text \<open>The locked section of \<open>BRClientSyncManagerScanToDepth\<close>. The \<open>uint64_t\<close> network
  height is narrowed to the \<open>uint32_t\<close> parameter of \<open>_getLastConfirmedSendTxHeight\<close>
  and the \<open>uint32_t\<close> result is widened again.\<close>

definition scanToDepthLocked ::
  "'w collaborators \<Rightarrow> 'w BRClientSyncManagerStruct \<Rightarrow> BRSyncDepth
     \<Rightarrow> 'w BRClientSyncManagerStruct outcome" where
  "scanToDepthLocked env manager depth =
     (if isConnected manager
      then
        Inr (manager
               \<lparr> syncedBlockHeight :=
                   (case depth of
                      SYNC_DEPTH_LOW \<Rightarrow>
                        (let scanHeight = getLastConfirmedSendTxHeight env (wallet manager)
                                            (ucast (networkBlockHeight manager))
                         in if 0 = scanHeight then initBlockHeight manager else ucast scanHeight)
                    | SYNC_DEPTH_MEDIUM \<Rightarrow>
                        (case BRChainParamsGetCheckpointBeforeBlockNumber env
                                (networkBlockHeight manager) of
                           None \<Rightarrow> initBlockHeight manager
                         | Some checkpointHeight \<Rightarrow> checkpointHeight)
                    | SYNC_DEPTH_HIGH \<Rightarrow> initBlockHeight manager),
                 scanState := BRClientSyncManagerScanStateWipe (scanState manager) \<rparr>,
             (if BRClientSyncManagerScanStateIsFullScan (scanState manager)
              then [eventCallback (SYNC_MANAGER_SYNC_STOPPED (- 1))] else []) @
             [eventCallback SYNC_MANAGER_DISCONNECTED, eventCallback SYNC_MANAGER_CONNECTED])
      else Inr (manager, []))"

definition BRClientSyncManagerScanToDepth ::
  "'w collaborators \<Rightarrow> 'w BRClientSyncManagerStruct \<Rightarrow> BRSyncDepth
     \<Rightarrow> 'w BRClientSyncManagerStruct outcome" where
  "BRClientSyncManagerScanToDepth env manager depth =
     andThen
       (andThen (scanToDepthLocked env manager depth) BRClientSyncManagerUpdateBlockNumber)
       (BRClientSyncManagerUpdateTransactions env)"

definition BRClientSyncManagerScan ::
  "'w collaborators \<Rightarrow> 'w BRClientSyncManagerStruct \<Rightarrow> 'w BRClientSyncManagerStruct outcome" where
  "BRClientSyncManagerScan env manager = BRClientSyncManagerScanToDepth env manager SYNC_DEPTH_HIGH"

definition BRClientSyncManagerSubmit ::
  "'w collaborators \<Rightarrow> 'w BRClientSyncManagerStruct \<Rightarrow> BRTransaction
     \<Rightarrow> 'w BRClientSyncManagerStruct outcome" where
  "BRClientSyncManagerSubmit env manager transaction =
     (if isConnected manager
      then (case BRClientSyncManagerGenerateRid manager of
              Inl e \<Rightarrow> Inl e
            | Inr (rid, manager') \<Rightarrow>
                Inr (manager',
                     [funcSubmitTransaction (BRTransactionSerialize env transaction)
                        (txHash transaction) rid]))
      else Inr (manager, [eventCallback (SYNC_MANAGER_TXN_SUBMITTED transaction (- 1))]))"

definition BRClientSyncManagerTickTock ::
  "'w collaborators \<Rightarrow> 'w BRClientSyncManagerStruct \<Rightarrow> 'w BRClientSyncManagerStruct outcome" where
  "BRClientSyncManagerTickTock env manager =
     andThen (BRClientSyncManagerUpdateBlockNumber manager)
       (BRClientSyncManagerUpdateTransactions env)"

definition BRClientSyncManagerAnnounceGetBlockNumber ::
  "'w BRClientSyncManagerStruct \<Rightarrow> int \<Rightarrow> uint64_t \<Rightarrow> 'w BRClientSyncManagerStruct outcome" where
  "BRClientSyncManagerAnnounceGetBlockNumber manager rid height =
     (if height > networkBlockHeight manager \<and> isConnected manager
      then Inr (manager \<lparr> networkBlockHeight := height \<rparr>,
                [eventCallback (SYNC_MANAGER_BLOCK_HEIGHT_UPDATED height)])
      else Inr (manager, []))"

definition BRClientSyncManagerAnnounceSubmitTransaction ::
  "'w collaborators \<Rightarrow> 'w BRClientSyncManagerStruct \<Rightarrow> int \<Rightarrow> BRTransaction \<Rightarrow> int
     \<Rightarrow> 'w BRClientSyncManagerStruct outcome" where
  "BRClientSyncManagerAnnounceSubmitTransaction env manager rid txn error =
     Inr ((if 0 = error \<and> BRWalletTransactionForHash env (wallet manager) (txHash txn) = None
           then manager \<lparr> wallet := BRWalletRegisterTransaction env (wallet manager) txn \<rparr>
           else manager),
          [eventCallback (SYNC_MANAGER_TXN_SUBMITTED txn error)])"

text \<open>The announced timestamp and height are \<open>uint64_t\<close> and are narrowed to \<open>uint32_t\<close>.\<close>

definition BRClientSyncManagerAnnounceGetTransactionsItem ::
  "'w collaborators \<Rightarrow> 'w BRClientSyncManagerStruct \<Rightarrow> int \<Rightarrow> uint8_t list \<Rightarrow> uint64_t \<Rightarrow> uint64_t
     \<Rightarrow> 'w BRClientSyncManagerStruct outcome" where
  "BRClientSyncManagerAnnounceGetTransactionsItem env manager rid txn ts height =
     (case BRTransactionParse env txn of
        None \<Rightarrow> Inr (manager, [])
      | Some transaction \<Rightarrow>
          if BRTransactionIsSigned env transaction \<and>
             (rid = BRClientSyncManagerScanStateGetRequestId (scanState manager) \<and>
              isConnected manager)
          then
            (case BRWalletTransactionForHash env (wallet manager) (txHash transaction) of
               Some walletTxn \<Rightarrow>
                 Inr (manager \<lparr> wallet := BRWalletUpdateTransactions env (wallet manager)
                                            [txHash transaction] (ucast height) (ucast ts) \<rparr>, [])
             | None \<Rightarrow>
                 Inr (manager \<lparr> wallet := BRWalletRegisterTransaction env (wallet manager)
                                            (transaction \<lparr> blockHeight := ucast height,
                                                           timestamp := ucast ts \<rparr>) \<rparr>, []))
          else Inr (manager, []))"

text \<open>\<open>success\<close> is a C \<open>int\<close> tested for being non-zero.\<close>

definition BRClientSyncManagerAnnounceGetTransactionsDone ::
  "'w collaborators \<Rightarrow> 'w BRClientSyncManagerStruct \<Rightarrow> int \<Rightarrow> int
     \<Rightarrow> 'w BRClientSyncManagerStruct outcome" where
  "BRClientSyncManagerAnnounceGetTransactionsDone env manager rid success =
     (if rid = BRClientSyncManagerScanStateGetRequestId (scanState manager) \<and> isConnected manager
      then
        (if success \<noteq> 0
         then
           (case BRClientSyncManagerScanStateAdvanceAndGetNewAddresses env
                   (scanState manager) (wallet manager) of
              Inl e \<Rightarrow> Inl e
            | Inr (ss, w, addresses) \<Rightarrow>
                if 0 \<noteq> (case addresses of None \<Rightarrow> 0 | Some as \<Rightarrow> length as)
                then
                  Inr (manager \<lparr> wallet := w, scanState := ss \<rparr>,
                       [funcGetTransactions (case addresses of None \<Rightarrow> [] | Some as \<Rightarrow> as)
                          (BRClientSyncManagerScanStateGetStartBlockNumber ss)
                          (BRClientSyncManagerScanStateGetEndBlockNumber ss)
                          rid])
                else
                  Inr (manager \<lparr> wallet := w,
                                 syncedBlockHeight :=
                                   BRClientSyncManagerScanStateGetSyncedBlockNumber ss,
                                 scanState := BRClientSyncManagerScanStateWipe ss \<rparr>,
                       (if BRClientSyncManagerScanStateIsFullScan ss
                        then [eventCallback (SYNC_MANAGER_SYNC_STOPPED 0)] else [])))
         else
           Inr (manager \<lparr> scanState := BRClientSyncManagerScanStateWipe (scanState manager) \<rparr>,
                (if BRClientSyncManagerScanStateIsFullScan (scanState manager)
                 then [eventCallback (SYNC_MANAGER_SYNC_STOPPED (- 1))] else [])))
      else Inr (manager, []))"

section \<open>Peer sync manager callbacks\<close>

text \<open>The peer manager is a collaborator: each callback takes what
  \<open>BRPeerManagerConnectStatus\<close> and \<open>BRPeerManagerLastBlockHeight\<close> return when it runs.
  The compound literal of the sync-stopped event in \<open>_BRPeerSyncManagerTxStatusUpdate\<close>
  names only the event type, so the reason is zero-initialised.\<close>

definition PeerSyncManagerSyncStarted ::
  "BRPeerSyncManagerStruct \<Rightarrow> BRPeerSyncManagerStruct outcome" where
  "PeerSyncManagerSyncStarted manager =
     Inr (manager \<lparr> peerIsConnected := True, peerIsFullScan := True \<rparr>,
          (if peerIsFullScan manager
           then [eventCallback (SYNC_MANAGER_SYNC_STOPPED (- 1))] else []) @
          (if \<not> peerIsConnected manager then [eventCallback SYNC_MANAGER_CONNECTED] else []) @
          [eventCallback SYNC_MANAGER_SYNC_STARTED])"

definition PeerSyncManagerSyncStopped ::
  "BRPeerSyncManagerStruct \<Rightarrow> BRPeerStatus \<Rightarrow> int \<Rightarrow> BRPeerSyncManagerStruct outcome" where
  "PeerSyncManagerSyncStopped manager connectStatus reason =
     (let nowConnected = (BRPeerStatusDisconnected \<noteq> connectStatus);
          needSyncStoppedEvent = peerIsFullScan manager;
          needDisconnectionEvent = (\<not> nowConnected \<and> peerIsConnected manager)
      in Inr (manager \<lparr> peerIsConnected := (if needDisconnectionEvent then False else nowConnected),
                        peerIsFullScan :=
                          (if needSyncStoppedEvent then False else peerIsFullScan manager) \<rparr>,
              (if needSyncStoppedEvent
               then [eventCallback (SYNC_MANAGER_SYNC_STOPPED reason)] else []) @
              (if needDisconnectionEvent
               then [eventCallback SYNC_MANAGER_DISCONNECTED] else [])))"

definition PeerSyncManagerTxStatusUpdate ::
  "BRPeerSyncManagerStruct \<Rightarrow> BRPeerStatus \<Rightarrow> uint64_t \<Rightarrow> BRPeerSyncManagerStruct outcome" where
  "PeerSyncManagerTxStatusUpdate manager connectStatus lastBlockHeight =
     (let nowConnected = (BRPeerStatusDisconnected \<noteq> connectStatus);
          needSyncStoppedEvent =
            (\<not> nowConnected \<and> peerIsConnected manager \<and> peerIsFullScan manager);
          needDisconnectionEvent = (\<not> nowConnected \<and> peerIsConnected manager);
          needBlockHeightEvent = (lastBlockHeight > peerNetworkBlockHeight manager)
      in Inr (manager \<lparr> peerIsConnected :=
                          (if needDisconnectionEvent then False else peerIsConnected manager),
                        peerIsFullScan :=
                          (if needSyncStoppedEvent then False else peerIsFullScan manager),
                        peerNetworkBlockHeight :=
                          max lastBlockHeight (peerNetworkBlockHeight manager) \<rparr>,
              (if needBlockHeightEvent
               then [eventCallback (SYNC_MANAGER_BLOCK_HEIGHT_UPDATED lastBlockHeight)] else []) @
              (if needSyncStoppedEvent
               then [eventCallback (SYNC_MANAGER_SYNC_STOPPED 0)] else []) @
              (if needDisconnectionEvent
               then [eventCallback SYNC_MANAGER_DISCONNECTED] else []) @
              [eventCallback SYNC_MANAGER_TXNS_UPDATED]))"

section \<open>Sequences of operations on a client manager\<close>

text \<open>The operations the owner and the client can invoke on a client-mode manager.
  \<open>WalletChanged\<close> stands for a change the owner makes to the borrowed wallet between two
  operations of the manager.\<close>

datatype 'w operation =
    Connect
  | Disconnect
  | Scan
  | ScanToDepth BRSyncDepth
  | Submit BRTransaction
  | TickTock
  | AnnounceGetBlockNumber int uint64_t
  | AnnounceGetTransactionsItem int "uint8_t list" uint64_t uint64_t
  | AnnounceGetTransactionsDone int int
  | AnnounceSubmitTransaction int BRTransaction int
  | WalletChanged 'w

fun step ::
  "'w collaborators \<Rightarrow> 'w BRClientSyncManagerStruct \<Rightarrow> 'w operation
     \<Rightarrow> 'w BRClientSyncManagerStruct outcome" where
  "step env m Connect = BRClientSyncManagerConnect env m"
| "step env m Disconnect = BRClientSyncManagerDisconnect m"
| "step env m Scan = BRClientSyncManagerScan env m"
| "step env m (ScanToDepth depth) = BRClientSyncManagerScanToDepth env m depth"
| "step env m (Submit tx) = BRClientSyncManagerSubmit env m tx"
| "step env m TickTock = BRClientSyncManagerTickTock env m"
| "step env m (AnnounceGetBlockNumber rid h) = BRClientSyncManagerAnnounceGetBlockNumber m rid h"
| "step env m (AnnounceGetTransactionsItem rid txn ts h) =
     BRClientSyncManagerAnnounceGetTransactionsItem env m rid txn ts h"
| "step env m (AnnounceGetTransactionsDone rid success) =
     BRClientSyncManagerAnnounceGetTransactionsDone env m rid success"
| "step env m (AnnounceSubmitTransaction rid tx error) =
     BRClientSyncManagerAnnounceSubmitTransaction env m rid tx error"
| "step env m (WalletChanged w) = Inr (m \<lparr> wallet := w \<rparr>, [])"

fun run ::
  "'w collaborators \<Rightarrow> 'w BRClientSyncManagerStruct \<Rightarrow> 'w operation list
     \<Rightarrow> 'w BRClientSyncManagerStruct outcome" where
  "run env m [] = Inr (m, [])"
| "run env m (operation # ops) =
     (case step env m operation of
        Inl e \<Rightarrow> Inl e
      | Inr (m', out) \<Rightarrow>
          (case run env m' ops of
             Inl e \<Rightarrow> Inl e
           | Inr (m'', out') \<Rightarrow> Inr (m'', out @ out')))"

section \<open>Observations on the callbacks\<close>

text \<open>The request id a callback hands to the client; an event carries none.\<close>

fun requestIdOf :: "callback \<Rightarrow> int option" where
  "requestIdOf (eventCallback e) = None"
| "requestIdOf (funcGetBlockNumber r) = Some r"
| "requestIdOf (funcGetTransactions a b e r) = Some r"
| "requestIdOf (funcSubmitTransaction t h r) = Some r"

definition clientRequestIds :: "callback list \<Rightarrow> int list" where
  "clientRequestIds out = List.map_filter requestIdOf out"

definition clientCalls :: "callback list \<Rightarrow> callback list" where
  "clientCalls out = filter (\<lambda>c. requestIdOf c \<noteq> None) out"

section \<open>Locked sections\<close>

text \<open>
  An operation takes the manager's lock at most a few times. What it does from one entry
  of the lock up to the next, the callbacks it makes after the release included, is a
  section. \<open>connect\<close>, \<open>scan\<close>, \<open>scanToDepth\<close> and \<open>tickTock\<close> consist of the sections of
  \<open>updateBlockNumber\<close> and \<open>updateTransactions\<close>, preceded for the first three by a section
  of their own; every other operation is one section (\<open>announceSubmitTransaction\<close> never
  takes the lock and \<open>announceGetTransactionsItem\<close> takes it only to compare the request
  id; neither reads or writes the id generator). The request ids are generated inside the
  sections. The lock serialises the sections, so operations that overlap on several
  threads enter the lock as a sequence of sections in which the sections of each
  operation keep their order; the wallet is taken to change only between sections.
\<close>

text \<open>The section of \<open>BRClientSyncManagerConnect\<close> before it calls
  \<open>BRClientSyncManagerUpdateBlockNumber\<close>.\<close>

definition connectLocked ::
  "'w BRClientSyncManagerStruct \<Rightarrow> 'w BRClientSyncManagerStruct outcome" where
  "connectLocked manager =
     (if \<not> isConnected manager
      then Inr (manager \<lparr> isConnected := True \<rparr>, [eventCallback SYNC_MANAGER_CONNECTED])
      else Inr (manager, []))"

datatype 'w lockedSection =
    SecConnect
  | SecUpdateBlockNumber
  | SecUpdateTransactions
  | SecDisconnect
  | SecScanToDepth BRSyncDepth
  | SecSubmit BRTransaction
  | SecAnnounceGetBlockNumber int uint64_t
  | SecAnnounceGetTransactionsItem int "uint8_t list" uint64_t uint64_t
  | SecAnnounceGetTransactionsDone int int
  | SecAnnounceSubmitTransaction int BRTransaction int
  | SecWalletChanged 'w

fun runSection ::
  "'w collaborators \<Rightarrow> 'w BRClientSyncManagerStruct \<Rightarrow> 'w lockedSection
     \<Rightarrow> 'w BRClientSyncManagerStruct outcome" where
  "runSection env m SecConnect = connectLocked m"
| "runSection env m SecUpdateBlockNumber = BRClientSyncManagerUpdateBlockNumber m"
| "runSection env m SecUpdateTransactions = BRClientSyncManagerUpdateTransactions env m"
| "runSection env m SecDisconnect = BRClientSyncManagerDisconnect m"
| "runSection env m (SecScanToDepth depth) = scanToDepthLocked env m depth"
| "runSection env m (SecSubmit tx) = BRClientSyncManagerSubmit env m tx"
| "runSection env m (SecAnnounceGetBlockNumber rid h) =
     BRClientSyncManagerAnnounceGetBlockNumber m rid h"
| "runSection env m (SecAnnounceGetTransactionsItem rid txn ts h) =
     BRClientSyncManagerAnnounceGetTransactionsItem env m rid txn ts h"
| "runSection env m (SecAnnounceGetTransactionsDone rid success) =
     BRClientSyncManagerAnnounceGetTransactionsDone env m rid success"
| "runSection env m (SecAnnounceSubmitTransaction rid tx error) =
     BRClientSyncManagerAnnounceSubmitTransaction env m rid tx error"
| "runSection env m (SecWalletChanged w) = Inr (m \<lparr> wallet := w \<rparr>, [])"

text \<open>The sections of an operation, in the order the operation runs them.\<close>

fun sectionsOf :: "'w operation \<Rightarrow> 'w lockedSection list" where
  "sectionsOf Connect = [SecConnect, SecUpdateBlockNumber, SecUpdateTransactions]"
| "sectionsOf Disconnect = [SecDisconnect]"
| "sectionsOf Scan = [SecScanToDepth SYNC_DEPTH_HIGH, SecUpdateBlockNumber, SecUpdateTransactions]"
| "sectionsOf (ScanToDepth depth) =
     [SecScanToDepth depth, SecUpdateBlockNumber, SecUpdateTransactions]"
| "sectionsOf (Submit tx) = [SecSubmit tx]"
| "sectionsOf TickTock = [SecUpdateBlockNumber, SecUpdateTransactions]"
| "sectionsOf (AnnounceGetBlockNumber rid h) = [SecAnnounceGetBlockNumber rid h]"
| "sectionsOf (AnnounceGetTransactionsItem rid txn ts h) =
     [SecAnnounceGetTransactionsItem rid txn ts h]"
| "sectionsOf (AnnounceGetTransactionsDone rid success) =
     [SecAnnounceGetTransactionsDone rid success]"
| "sectionsOf (AnnounceSubmitTransaction rid tx error) =
     [SecAnnounceSubmitTransaction rid tx error]"
| "sectionsOf (WalletChanged w) = [SecWalletChanged w]"

text \<open>The log of a sequence of sections: each section that runs, with its callbacks,
  in the order the sections enter the lock. A fault ends the log: a failed \<open>assert\<close>
  aborts the process, and the behaviour after a signed overflow is undefined. Every
  fault of a section occurs before its first callback.\<close>

fun sectionLog ::
  "'w collaborators \<Rightarrow> 'w BRClientSyncManagerStruct \<Rightarrow> 'w lockedSection list
     \<Rightarrow> ('w lockedSection \<times> callback list) list" where
  "sectionLog env m [] = []"
| "sectionLog env m (s # secs) =
     (case runSection env m s of
        Inl e \<Rightarrow> []
      | Inr (m', out) \<Rightarrow> (s, out) # sectionLog env m' secs)"

text \<open>
  A monitor for the request ids along a log. Its state is the greatest id generated so
  far and the id of the latest \<open>getTransactions\<close> call that started a scan (0 before the
  first); None is the rejecting state.
  \<^item> A section of \<open>updateBlockNumber\<close> may call \<open>getBlockNumber\<close> once, a section of
    \<open>submit\<close> may call \<open>submitTransaction\<close> once, and a section of \<open>updateTransactions\<close>
    may call \<open>getTransactions\<close> once: the id must be greater than every id generated
    before. The id of the \<open>getTransactions\<close> call becomes the id of the latest scan.
  \<^item> A section of \<open>announceGetTransactionsDone\<close> may call \<open>getTransactions\<close> once: the id
    must be the id of the latest scan, and positive.
  \<^item> Any other section, and any other call in the sections above, is rejected when it
    hands an id to the client.
\<close>

fun acceptSection :: "int \<times> int \<Rightarrow> 'w lockedSection \<Rightarrow> callback list \<Rightarrow> (int \<times> int) option" where
  "acceptSection (hi, cur) SecUpdateBlockNumber out =
     (case clientCalls out of
        [] \<Rightarrow> Some (hi, cur)
      | [funcGetBlockNumber r] \<Rightarrow> if hi < r then Some (r, cur) else None
      | _ \<Rightarrow> None)"
| "acceptSection (hi, cur) (SecSubmit tx) out =
     (case clientCalls out of
        [] \<Rightarrow> Some (hi, cur)
      | [funcSubmitTransaction t h r] \<Rightarrow> if hi < r then Some (r, cur) else None
      | _ \<Rightarrow> None)"
| "acceptSection (hi, cur) SecUpdateTransactions out =
     (case clientCalls out of
        [] \<Rightarrow> Some (hi, cur)
      | [funcGetTransactions a b e r] \<Rightarrow> if hi < r then Some (r, r) else None
      | _ \<Rightarrow> None)"
| "acceptSection (hi, cur) (SecAnnounceGetTransactionsDone rid success) out =
     (case clientCalls out of
        [] \<Rightarrow> Some (hi, cur)
      | [funcGetTransactions a b e r] \<Rightarrow> if r = cur \<and> 0 < r then Some (hi, cur) else None
      | _ \<Rightarrow> None)"
| "acceptSection (hi, cur) s out = (if clientCalls out = [] then Some (hi, cur) else None)"

fun acceptLog ::
  "(int \<times> int) option \<Rightarrow> ('w lockedSection \<times> callback list) list \<Rightarrow> (int \<times> int) option" where
  "acceptLog t [] = t"
| "acceptLog None (entry # log) = None"
| "acceptLog (Some t) ((s, out) # log) = acceptLog (acceptSection t s out) log"

definition idsInOrder :: "('w lockedSection \<times> callback list) list \<Rightarrow> bool" where
  "idsInOrder log = (acceptLog (Some (0, 0)) log \<noteq> None)"

text \<open>The invariant that ties a manager to a state of the monitor: the id of the latest
  scan is not negative and at most the greatest id generated, which is at most the
  generator's value; an idle scan state has no address set; and the id of a scan in
  progress is the id of the latest scan.\<close>

definition tracks :: "'w BRClientSyncManagerStruct \<Rightarrow> int \<times> int \<Rightarrow> bool" where
  "tracks m t =
     (0 \<le> snd t \<and> snd t \<le> fst t \<and> fst t \<le> requestIdGenerator m \<and>
      (requestId (scanState m) = 0 \<longrightarrow> knownAddresses (scanState m) = None) \<and>
      (requestId (scanState m) \<noteq> 0 \<longrightarrow> requestId (scanState m) = snd t))"

text \<open>The heights \<open>_getLastConfirmedSendTxHeight\<close> takes the maximum of, stated on the
  wallet's transaction list: valid, sending, confirmed, and strictly more than
  \<open>CONFIRMATION_BLOCK_COUNT\<close> blocks below \<open>lastBlockHeight\<close>.\<close>

definition confirmedSendHeights :: "'w collaborators \<Rightarrow> 'w \<Rightarrow> uint32_t \<Rightarrow> uint32_t list" where
  "confirmedSendHeights env w lastBlockHeight =
     map blockHeight
       (filter (\<lambda>tx. BRWalletTransactionIsValid env w tx \<and>
                     BRWalletAmountSentByTx env w tx \<noteq> 0 \<and>
                     blockHeight tx \<noteq> TX_UNCONFIRMED env \<and>
                     blockHeight tx < lastBlockHeight - CONFIRMATION_BLOCK_COUNT)
          (BRWalletTransactions env w))"

text \<open>The height a low-depth rescan starts from, stated on that list: its maximum when
  the network height, narrowed to 32 bits, is at least \<open>CONFIRMATION_BLOCK_COUNT\<close>, the
  list is not empty and the maximum is not zero; \<open>initBlockHeight\<close> otherwise.\<close>

definition lowDepthHeight :: "'w collaborators \<Rightarrow> 'w BRClientSyncManagerStruct \<Rightarrow> uint64_t" where
  "lowDepthHeight env m =
     (if CONFIRMATION_BLOCK_COUNT \<le> ucast (networkBlockHeight m) \<and>
         confirmedSendHeights env (wallet m) (ucast (networkBlockHeight m)) \<noteq> [] \<and>
         Max (set (confirmedSendHeights env (wallet m) (ucast (networkBlockHeight m)))) \<noteq> 0
      then ucast (Max (set (confirmedSendHeights env (wallet m) (ucast (networkBlockHeight m)))))
      else initBlockHeight m)"

section \<open>A small wallet for concrete runs\<close>

text \<open>
  A wallet with a gap limit, used to run the manager on concrete inputs. The external
  chain is a fixed supply of addresses of which the first \<open>generated\<close> are derived and
  the first \<open>usedCount\<close> have received a transaction; the internal chain has one address.
  Registering an unknown transaction uses the first unused external address. The first
  byte of a serialised transaction is its hash, the rest its body; a transaction with an
  empty body is unsigned, and the first byte of the body is the amount it sends.
\<close>

record toyWallet =
  usedCount :: nat
  generated :: nat
  toyTransactions :: "BRTransaction list"

definition toyExternalChain :: "BRAddress list" where
  "toyExternalChain = [''E0'', ''E1'', ''E2'', ''E3'', ''E4'', ''E5'', ''E6'', ''E7'']"

definition toyUnusedAddrs ::
  "toyWallet \<Rightarrow> bool \<Rightarrow> nat \<Rightarrow> bool \<Rightarrow> toyWallet \<times> BRAddress list" where
  "toyUnusedAddrs w hasBuffer gapLimit internal =
     (if internal then (w, take gapLimit [''I0''])
      else (w \<lparr> generated := max (generated w) (usedCount w + gapLimit) \<rparr>,
            take gapLimit (drop (usedCount w) toyExternalChain)))"

definition toyTransactionForHash :: "toyWallet \<Rightarrow> UInt256 \<Rightarrow> BRTransaction option" where
  "toyTransactionForHash w h = find (\<lambda>t. txHash t = h) (toyTransactions w)"

definition toyRegisterTransaction :: "toyWallet \<Rightarrow> BRTransaction \<Rightarrow> toyWallet" where
  "toyRegisterTransaction w tx =
     (case toyTransactionForHash w (txHash tx) of
        Some t \<Rightarrow> w
      | None \<Rightarrow> w \<lparr> usedCount := usedCount w + 1, toyTransactions := toyTransactions w @ [tx] \<rparr>)"

definition toyUpdateTransactions ::
  "toyWallet \<Rightarrow> UInt256 list \<Rightarrow> uint32_t \<Rightarrow> uint32_t \<Rightarrow> toyWallet" where
  "toyUpdateTransactions w hashes h ts =
     w \<lparr> toyTransactions :=
           map (\<lambda>t. if txHash t \<in> set hashes then t \<lparr> blockHeight := h, timestamp := ts \<rparr> else t)
             (toyTransactions w) \<rparr>"

definition toyParse :: "uint8_t list \<Rightarrow> BRTransaction option" where
  "toyParse bytes =
     (case bytes of
        [] \<Rightarrow> None
      | b # bs \<Rightarrow> Some \<lparr> txHash = ucast b, blockHeight = 0x7FFFFFFF, timestamp = 0, txBody = bs \<rparr>)"

definition toyEnv :: "toyWallet collaborators" where
  "toyEnv =
     \<lparr> SEQUENCE_GAP_LIMIT_EXTERNAL = 2,
       SEQUENCE_GAP_LIMIT_INTERNAL = 1,
       TX_UNCONFIRMED = 0x7FFFFFFF,
       BRChainParamsGetCheckpointBefore = (\<lambda>t. if t < 1000000 then None else Some 100),
       BRChainParamsGetCheckpointBeforeBlockNumber = (\<lambda>h. if h \<le> 100 then None else Some 100),
       BRWalletUnusedAddrs = toyUnusedAddrs,
       BRWalletAllAddrs = (\<lambda>w. take (generated w) toyExternalChain @ [''I0'']),
       BRWalletAddressToLegacy = (\<lambda>w a. a),
       BRWalletTransactions = toyTransactions,
       BRWalletTransactionIsValid = (\<lambda>w tx. True),
       BRWalletAmountSentByTx = (\<lambda>w tx. case txBody tx of [] \<Rightarrow> 0 | b # bs \<Rightarrow> ucast b),
       BRWalletTransactionForHash = toyTransactionForHash,
       BRWalletRegisterTransaction = toyRegisterTransaction,
       BRWalletUpdateTransactions = toyUpdateTransactions,
       BRTransactionParse = toyParse,
       BRTransactionIsSigned = (\<lambda>tx. txBody tx \<noteq> []),
       BRTransactionSerialize = (\<lambda>tx. ucast (txHash tx) # txBody tx) \<rparr>"

definition toyWallet0 :: toyWallet where
  "toyWallet0 = \<lparr> usedCount = 0, generated = 0, toyTransactions = [] \<rparr>"

text \<open>The manager as created for \<open>toyWallet0\<close> with block height 244 and a checkpoint at
  height 100, and the same manager after \<open>connect\<close>.\<close>

definition toyManager0 :: "toyWallet BRClientSyncManagerStruct" where
  "toyManager0 =
     \<lparr> wallet = toyWallet0, initBlockHeight = 100, networkBlockHeight = 244,
       isConnected = False, syncedBlockHeight = 100, requestIdGenerator = 0,
       scanState = \<lparr> requestId = 0, lastExternalAddress = [], lastInternalAddress = [],
                     knownAddresses = None, begBlockNumber = 0, endBlockNumber = 0,
                     isFullScan = False \<rparr> \<rparr>"

definition toyManager1 :: "toyWallet BRClientSyncManagerStruct" where
  "toyManager1 =
     \<lparr> wallet = \<lparr> usedCount = 0, generated = 2, toyTransactions = [] \<rparr>,
       initBlockHeight = 100, networkBlockHeight = 244,
       isConnected = True, syncedBlockHeight = 100, requestIdGenerator = 2,
       scanState = \<lparr> requestId = 2, lastExternalAddress = ''E0'', lastInternalAddress = ''I0'',
                     knownAddresses = Some [''E0'', ''E1'', ''I0''],
                     begBlockNumber = 100, endBlockNumber = 245, isFullScan = True \<rparr> \<rparr>"

text \<open>A connected, idle manager at network height 1000 whose wallet holds one signed
  transaction that sends, confirmed at the given height.\<close>

definition toySend :: "uint32_t \<Rightarrow> BRTransaction" where
  "toySend h = \<lparr> txHash = 7, blockHeight = h, timestamp = 5, txBody = [1] \<rparr>"

definition toyManagerSend :: "uint32_t \<Rightarrow> toyWallet BRClientSyncManagerStruct" where
  "toyManagerSend h =
     \<lparr> wallet = \<lparr> usedCount = 1, generated = 3, toyTransactions = [toySend h] \<rparr>,
       initBlockHeight = 100, networkBlockHeight = 1000,
       isConnected = True, syncedBlockHeight = 1000, requestIdGenerator = 4,
       scanState = \<lparr> requestId = 0, lastExternalAddress = [], lastInternalAddress = [],
                     knownAddresses = None, begBlockNumber = 0, endBlockNumber = 0,
                     isFullScan = False \<rparr> \<rparr>"

text \<open>The state of \<open>toyManagerSend h\<close> after \<open>scanToDepth\<close> has reset the synced height
  to \<open>s\<close> and started the next scan.\<close>

definition toyManagerRescan :: "uint32_t \<Rightarrow> uint64_t \<Rightarrow> toyWallet BRClientSyncManagerStruct" where
  "toyManagerRescan h s =
     \<lparr> wallet = \<lparr> usedCount = 1, generated = 3, toyTransactions = [toySend h] \<rparr>,
       initBlockHeight = 100, networkBlockHeight = 1000,
       isConnected = True, syncedBlockHeight = s, requestIdGenerator = 6,
       scanState = \<lparr> requestId = 6, lastExternalAddress = ''E1'', lastInternalAddress = ''I0'',
                     knownAddresses = Some [''E0'', ''E1'', ''E2'', ''I0''],
                     begBlockNumber = s, endBlockNumber = 1001, isFullScan = True \<rparr> \<rparr>"

text \<open>The manager after connect and one announced transaction that uses \<open>E0\<close>; the
  manager after the following \<open>announceGetTransactionsDone\<close>, which re-issues the query
  for the new address \<open>E2\<close> and captures \<open>E1\<close>; and that manager after the owner has
  removed the transaction from the wallet again, so that the first unused external
  address is back at \<open>E0\<close> while every wallet address is known.\<close>

definition toyWalletUsed :: toyWallet where
  "toyWalletUsed =
     \<lparr> usedCount = 1, generated = 3,
       toyTransactions = [\<lparr> txHash = 7, blockHeight = 200, timestamp = 5, txBody = [1] \<rparr>] \<rparr>"

definition toyWalletRemoved :: toyWallet where
  "toyWalletRemoved = \<lparr> usedCount = 0, generated = 3, toyTransactions = [] \<rparr>"

definition toyManagerItem :: "toyWallet BRClientSyncManagerStruct" where
  "toyManagerItem =
     toyManager1
       \<lparr> wallet := \<lparr> usedCount = 1, generated = 2,
                      toyTransactions =
                        [\<lparr> txHash = 7, blockHeight = 200, timestamp = 5, txBody = [1] \<rparr>] \<rparr> \<rparr>"

definition toyManagerReissued :: "toyWallet BRClientSyncManagerStruct" where
  "toyManagerReissued =
     \<lparr> wallet = toyWalletUsed,
       initBlockHeight = 100, networkBlockHeight = 244,
       isConnected = True, syncedBlockHeight = 100, requestIdGenerator = 2,
       scanState = \<lparr> requestId = 2, lastExternalAddress = ''E1'', lastInternalAddress = ''I0'',
                     knownAddresses = Some [''E0'', ''E1'', ''I0'', ''E2''],
                     begBlockNumber = 100, endBlockNumber = 245, isFullScan = True \<rparr> \<rparr>"

definition toyManagerRemoved :: "toyWallet BRClientSyncManagerStruct" where
  "toyManagerRemoved = toyManagerReissued \<lparr> wallet := toyWalletRemoved \<rparr>"

section \<open>Auxiliary facts\<close>

lemma andThen_Inr:
  "andThen r f = Inr (s'', out) \<Longrightarrow>
     \<exists>s out1 out2. r = Inr (s, out1) \<and> f s = Inr (s'', out2) \<and> out = out1 @ out2"
  by (auto simp: andThen_def split: sum.splits prod.splits)

lemma GenerateRid_Inr:
  "BRClientSyncManagerGenerateRid m = Inr (rid, m') \<Longrightarrow>
     requestIdGenerator m < INT_MAX \<and> rid = requestIdGenerator m + 1 \<and>
     m' = m \<lparr> requestIdGenerator := rid \<rparr>"
  by (auto simp: BRClientSyncManagerGenerateRid_def split: if_splits)

lemma updateAddressSetLoop_new:
  "\<exists>new. updateAddressSetLoop known acc arr = (known @ new, acc @ new) \<and>
         set new = set arr - set known \<and> distinct new"
proof (induction arr arbitrary: known acc)
  case Nil
  then show ?case by simp
next
  case (Cons a arr)
  show ?case
  proof (cases "a \<in> set known")
    case True
    with Cons.IH [of known acc] show ?thesis by auto
  next
    case False
    from Cons.IH [of "known @ [a]" "acc @ [a]"] obtain new where
      n: "updateAddressSetLoop (known @ [a]) (acc @ [a]) arr = (known @ [a] @ new, acc @ [a] @ new)"
         "set new = set arr - set (known @ [a])" "distinct new"
      by auto
    with False have "updateAddressSetLoop known acc (a # arr) = (known @ (a # new), acc @ (a # new))
        \<and> set (a # new) = set (a # arr) - set known \<and> distinct (a # new)"
      by auto
    then show ?thesis by blast
  qed
qed

lemma unat_max: "unat (max (a :: 'a::len word) b) = max (unat a) (unat b)"
  by (simp add: max_def word_le_nat_alt)

lemma unat_min: "unat (min (a :: 'a::len word) b) = min (unat a) (unat b)"
  by (simp add: min_def word_le_nat_alt)

lemma offset_144: "BWM_BRD_SYNC_START_BLOCK_OFFSET = 144"
  by (simp add: BWM_BRD_SYNC_START_BLOCK_OFFSET_def BWM_BRD_SYNC_DAYS_OFFSET_def
        BWM_MINUTES_PER_BLOCK_def)

lemma window_arith:
  fixes e s :: uint64_t
  defines "b \<equiv> min s (if e \<ge> 144 then e - 144 else 0)"
  assumes gt: "e > b"
  shows "unat b = min (unat s) (unat e - 144)"
    and "(e - b > 144) \<longleftrightarrow> 144 < unat e - unat b"
proof -
  show "unat b = min (unat s) (unat e - 144)"
    unfolding b_def by (auto simp: unat_min unat_sub word_le_nat_alt)
  from gt have "b \<le> e" by simp
  then have "unat (e - b) = unat e - unat b" by (rule unat_sub)
  then show "(e - b > 144) \<longleftrightarrow> 144 < unat e - unat b"
    by (simp add: word_less_nat_alt)
qed

lemma ScanStateInit_window:
  assumes "BRClientSyncManagerScanStateInit env ss w s n rid = Inr (ss', w')"
  shows "unat (endBlockNumber ss') = max (unat s) (unat n) + 1 \<and>
         unat (begBlockNumber ss') = min (unat s) (unat (endBlockNumber ss') - 144) \<and>
         (isFullScan ss' \<longleftrightarrow> 144 < unat (endBlockNumber ss') - unat (begBlockNumber ss')) \<and>
         requestId ss' = rid \<and> knownAddresses ss' \<noteq> None"
proof -
  define e where "e = max s n + 1"
  define b where "b = min s (if e \<ge> 144 then e - 144 else 0)"
  from assms have gt: "e > b"
    and ss': "endBlockNumber ss' = e" "begBlockNumber ss' = b"
      "isFullScan ss' = (e - b > 144)" "requestId ss' = rid" "knownAddresses ss' \<noteq> None"
    unfolding e_def b_def
    by (auto simp: BRClientSyncManagerScanStateInit_def offset_144 Let_def
          split: if_splits prod.splits)
  from gt have nz: "e \<noteq> 0" by (metis word_not_simps(1))
  have e: "unat e = max (unat s) (unat n) + 1"
    using nz unatSuc [of "max s n"] by (simp add: e_def unat_max add.commute)
  from window_arith [of s e] gt
  have "unat b = min (unat s) (unat e - 144)" "(e - b > 144) \<longleftrightarrow> 144 < unat e - unat b"
    unfolding b_def by auto
  then show ?thesis using e ss' by simp
qed

lemma lastConfirmedSendLoop_fold:
  "lastConfirmedSendLoop env w l acc txs =
     fold max (map blockHeight
       (filter (\<lambda>tx. BRWalletTransactionIsValid env w tx \<and>
                     BRWalletAmountSentByTx env w tx \<noteq> 0 \<and>
                     blockHeight tx \<noteq> TX_UNCONFIRMED env \<and>
                     blockHeight tx < l - CONFIRMATION_BLOCK_COUNT) txs)) acc"
  by (induction txs arbitrary: acc) (auto simp: max_def)

lemma getLastConfirmedSendTxHeight_Max:
  "getLastConfirmedSendTxHeight env w l =
     (if CONFIRMATION_BLOCK_COUNT \<le> l \<and> confirmedSendHeights env w l \<noteq> []
      then Max (set (confirmedSendHeights env w l)) else 0)"
proof (cases "confirmedSendHeights env w l = []")
  case True
  then show ?thesis
    by (auto simp: getLastConfirmedSendTxHeight_def lastConfirmedSendLoop_fold
          confirmedSendHeights_def)
next
  case False
  then have ne: "BRWalletTransactions env w \<noteq> []"
    by (auto simp: confirmedSendHeights_def)
  have "fold max (confirmedSendHeights env w l) 0 = Max (set (0 # confirmedSendHeights env w l))"
    by (rule Max.set_eq_fold [symmetric])
  also have "\<dots> = Max (set (confirmedSendHeights env w l))"
    using False by (simp add: max_def)
  finally show ?thesis using False ne
    by (simp add: getLastConfirmedSendTxHeight_def lastConfirmedSendLoop_fold
          confirmedSendHeights_def)
qed



lemma UpdateBlockNumber_Inr:
  assumes "BRClientSyncManagerUpdateBlockNumber m = Inr (m', out)"
  shows "(\<not> isConnected m \<and> m' = m \<and> out = []) \<or>
         (isConnected m \<and> requestIdGenerator m < INT_MAX \<and>
          m' = m \<lparr> requestIdGenerator := requestIdGenerator m + 1 \<rparr> \<and>
          out = [funcGetBlockNumber (requestIdGenerator m + 1)])"
  using assms
  by (auto simp: BRClientSyncManagerUpdateBlockNumber_def
        split: if_splits sum.splits prod.splits dest!: GenerateRid_Inr)

lemma UpdateTransactions_idle:
  "\<not> (isConnected m \<and> requestId (scanState m) = 0) \<Longrightarrow>
     BRClientSyncManagerUpdateTransactions env m = Inr (m, [])"
  by (auto simp: BRClientSyncManagerUpdateTransactions_def
        BRClientSyncManagerScanStateIsInProgress_def)

lemma UpdateTransactions_Inr:
  assumes "BRClientSyncManagerUpdateTransactions env m = Inr (m', out)"
    and "isConnected m" "requestId (scanState m) = 0"
  shows "\<exists>ss w addresses.
           requestIdGenerator m < INT_MAX \<and>
           BRClientSyncManagerScanStateInit env (scanState m) (wallet m)
             (syncedBlockHeight m) (networkBlockHeight m) (requestIdGenerator m + 1) = Inr (ss, w) \<and>
           knownAddresses ss = Some addresses \<and> addresses \<noteq> [] \<and>
           m' = m \<lparr> requestIdGenerator := requestIdGenerator m + 1, wallet := w, scanState := ss \<rparr> \<and>
           out = (if isFullScan ss then [eventCallback SYNC_MANAGER_SYNC_STARTED] else []) @
                 [funcGetTransactions addresses (begBlockNumber ss) (endBlockNumber ss)
                    (requestId ss)]"
  using assms
  by (auto simp: BRClientSyncManagerUpdateTransactions_def
        BRClientSyncManagerScanStateIsInProgress_def
        BRClientSyncManagerScanStateGetAddresses_def
        BRClientSyncManagerScanStateIsFullScan_def
        BRClientSyncManagerScanStateGetStartBlockNumber_def
        BRClientSyncManagerScanStateGetEndBlockNumber_def
        BRClientSyncManagerScanStateGetRequestId_def
        split: if_splits sum.splits prod.splits option.splits dest!: GenerateRid_Inr)


lemma Advance_known:
  assumes k: "knownAddresses ss = Some known"
    and c: "currentFirstUnused env w = (w3, extA, intA)"
  shows "\<exists>new. set new = set (getWalletAddresses env w3) - set known \<and> distinct new \<and>
           BRClientSyncManagerScanStateAdvanceAndGetNewAddresses env ss w =
             (if extA \<noteq> lastExternalAddress ss \<or> intA \<noteq> lastInternalAddress ss
              then Inr (ss \<lparr> lastExternalAddress := extA, lastInternalAddress := intA,
                             knownAddresses := Some (known @ new) \<rparr>, w3, Some new)
              else Inr (ss, w3, None))"
proof -
  from updateAddressSetLoop_new [of known "[]" "getWalletAddresses env w3"]
  obtain new where
    n: "updateWalletAddressSet env known w3 = (known @ new, new)"
       "set new = set (getWalletAddresses env w3) - set known" "distinct new"
    by (auto simp: updateWalletAddressSet_def)
  with k c show ?thesis
    by (auto simp: BRClientSyncManagerScanStateAdvanceAndGetNewAddresses_def)
qed

lemma Advance_Inr:
  assumes "BRClientSyncManagerScanStateAdvanceAndGetNewAddresses env ss w = Inr (ss', w', addresses)"
  shows "requestId ss' = requestId ss \<and> begBlockNumber ss' = begBlockNumber ss \<and>
         endBlockNumber ss' = endBlockNumber ss \<and> isFullScan ss' = isFullScan ss \<and>
         (addresses \<noteq> None \<longrightarrow> knownAddresses ss \<noteq> None) \<and>
         (knownAddresses ss' = None \<longrightarrow> knownAddresses ss = None)"
  using assms
  by (auto simp: BRClientSyncManagerScanStateAdvanceAndGetNewAddresses_def
        split: prod.splits if_splits option.splits)

lemma Wipe_fields [simp]:
  "requestId (BRClientSyncManagerScanStateWipe ss) = 0"
  "knownAddresses (BRClientSyncManagerScanStateWipe ss) = None"
  "isFullScan (BRClientSyncManagerScanStateWipe ss) = False"
  by (simp_all add: BRClientSyncManagerScanStateWipe_def)

lemma AnnounceGetTransactionsDone_Inr:
  assumes "BRClientSyncManagerAnnounceGetTransactionsDone env m rid success = Inr (m', out)"
  shows "requestIdGenerator m' = requestIdGenerator m \<and>
         ((\<forall>c \<in> set out. requestIdOf c = None) \<and>
            (scanState m' = scanState m \<or>
             scanState m' = BRClientSyncManagerScanStateWipe (scanState m')) \<or>
          (\<exists>as b e. out = [funcGetTransactions as b e (requestId (scanState m))]) \<and>
            knownAddresses (scanState m) \<noteq> None \<and>
            requestId (scanState m') = requestId (scanState m) \<and>
            (knownAddresses (scanState m') = None \<longrightarrow> knownAddresses (scanState m) = None))"
proof (cases "rid = requestId (scanState m) \<and> isConnected m")
  case False
  with assms show ?thesis
    by (auto simp: BRClientSyncManagerAnnounceGetTransactionsDone_def
          BRClientSyncManagerScanStateGetRequestId_def)
next
  case acc: True
  show ?thesis
  proof (cases "success = 0")
    case True
    with acc assms show ?thesis
      by (auto simp: BRClientSyncManagerAnnounceGetTransactionsDone_def
            BRClientSyncManagerScanStateGetRequestId_def BRClientSyncManagerScanStateWipe_def)
  next
    case False
    with acc assms obtain ss w addresses where
      a: "BRClientSyncManagerScanStateAdvanceAndGetNewAddresses env (scanState m) (wallet m) =
            Inr (ss, w, addresses)"
      by (auto simp: BRClientSyncManagerAnnounceGetTransactionsDone_def
            BRClientSyncManagerScanStateGetRequestId_def split: sum.splits)
    note f = Advance_Inr [OF a]
    show ?thesis
    proof (cases "0 \<noteq> (case addresses of None \<Rightarrow> 0 | Some as \<Rightarrow> length as)")
      case True
      with False acc assms a f show ?thesis
        by (auto simp: BRClientSyncManagerAnnounceGetTransactionsDone_def
              BRClientSyncManagerScanStateGetRequestId_def split: option.splits)
    next
      case F2: False
      with False acc assms a show ?thesis
        by (auto simp: BRClientSyncManagerAnnounceGetTransactionsDone_def
              BRClientSyncManagerScanStateGetRequestId_def BRClientSyncManagerScanStateWipe_def
              split: option.splits if_splits)
    qed
  qed
qed


subsection \<open>Request ids along a log of sections\<close>

lemma clientCalls_events:
  "\<forall>c \<in> set out. requestIdOf c = None \<Longrightarrow> clientCalls out = []"
  by (simp add: clientCalls_def filter_empty_conv)

lemma clientRequestIds_calls:
  "clientRequestIds out = map (the \<circ> requestIdOf) (clientCalls out)"
  by (simp add: clientRequestIds_def clientCalls_def List.map_filter_def)

lemma acceptSection_no_calls: "clientCalls out = [] \<Longrightarrow> acceptSection t s out = Some t"
  by (cases t; cases s) simp_all

lemma tracks_kept:
  assumes "tracks m t" "requestIdGenerator m \<le> requestIdGenerator m'"
    and "scanState m' = scanState m \<or> scanState m' = BRClientSyncManagerScanStateWipe (scanState m')"
  shows "tracks m' t"
  using assms unfolding tracks_def
  by (metis Wipe_fields(1) Wipe_fields(2) order_trans)

text \<open>A section that hands no id to the client and leaves the scan state alone or wiped.\<close>

lemma quiet_section:
  assumes "tracks m t" "\<forall>c \<in> set out. requestIdOf c = None"
    and "requestIdGenerator m \<le> requestIdGenerator m'"
    and "scanState m' = scanState m \<or> scanState m' = BRClientSyncManagerScanStateWipe (scanState m')"
  shows "\<exists>t'. acceptSection t s out = Some t' \<and> tracks m' t' \<and>
           list_all (\<lambda>r. 0 < r) (clientRequestIds out)"
proof -
  from assms(2) have c: "clientCalls out = []" by (rule clientCalls_events)
  then have "acceptSection t s out = Some t" by (rule acceptSection_no_calls)
  moreover from assms(1,3,4) have "tracks m' t" by (rule tracks_kept)
  moreover from c have "list_all (\<lambda>r. 0 < r) (clientRequestIds out)"
    by (simp add: clientRequestIds_calls)
  ultimately show ?thesis by blast
qed

lemma tracks_fresh:
  assumes "tracks m t"
  shows "tracks (m \<lparr> requestIdGenerator := requestIdGenerator m + 1 \<rparr>)
           (requestIdGenerator m + 1, snd t)"
    and "fst t < requestIdGenerator m + 1" and "0 < requestIdGenerator m + 1"
  using assms unfolding tracks_def by auto

lemma section_UpdateBlockNumber:
  assumes tr: "tracks m t"
    and r: "BRClientSyncManagerUpdateBlockNumber m = Inr (m', out)"
  shows "\<exists>t'. acceptSection t SecUpdateBlockNumber out = Some t' \<and> tracks m' t' \<and>
           list_all (\<lambda>r. 0 < r) (clientRequestIds out)"
proof -
  from UpdateBlockNumber_Inr [OF r] consider
    "m' = m" "out = []" |
    "m' = m \<lparr> requestIdGenerator := requestIdGenerator m + 1 \<rparr>"
    "out = [funcGetBlockNumber (requestIdGenerator m + 1)]"
    by auto
  then show ?thesis
  proof cases
    case 1
    with quiet_section [OF tr, of "[]" m] show ?thesis by simp
  next
    case 2
    from 2 tracks_fresh [OF tr] have
      "acceptSection t SecUpdateBlockNumber out = Some (requestIdGenerator m + 1, snd t)"
      "tracks m' (requestIdGenerator m + 1, snd t)"
      "list_all (\<lambda>r. 0 < r) (clientRequestIds out)"
      by (cases t; simp add: clientCalls_def clientRequestIds_calls)+
    then show ?thesis by blast
  qed
qed

lemma section_Submit:
  assumes tr: "tracks m t"
    and r: "BRClientSyncManagerSubmit env m tx = Inr (m', out)"
  shows "\<exists>t'. acceptSection t (SecSubmit tx) out = Some t' \<and> tracks m' t' \<and>
           list_all (\<lambda>r. 0 < r) (clientRequestIds out)"
proof -
  from r consider
    "m' = m" "out = [eventCallback (SYNC_MANAGER_TXN_SUBMITTED tx (- 1))]" |
    "m' = m \<lparr> requestIdGenerator := requestIdGenerator m + 1 \<rparr>"
    "out = [funcSubmitTransaction (BRTransactionSerialize env tx) (txHash tx)
              (requestIdGenerator m + 1)]"
    by (auto simp: BRClientSyncManagerSubmit_def split: if_splits sum.splits prod.splits
          dest!: GenerateRid_Inr)
  then show ?thesis
  proof cases
    case 1
    with quiet_section [OF tr, of out m] show ?thesis by simp
  next
    case 2
    from 2 tracks_fresh [OF tr] have
      "acceptSection t (SecSubmit tx) out = Some (requestIdGenerator m + 1, snd t)"
      "tracks m' (requestIdGenerator m + 1, snd t)"
      "list_all (\<lambda>r. 0 < r) (clientRequestIds out)"
      by (cases t; simp add: clientCalls_def clientRequestIds_calls)+
    then show ?thesis by blast
  qed
qed

lemma section_UpdateTransactions:
  assumes tr: "tracks m t"
    and u: "BRClientSyncManagerUpdateTransactions env m = Inr (m', out)"
  shows "\<exists>t'. acceptSection t SecUpdateTransactions out = Some t' \<and> tracks m' t' \<and>
           list_all (\<lambda>r. 0 < r) (clientRequestIds out)"
proof (cases "isConnected m \<and> requestId (scanState m) = 0")
  case False
  with u UpdateTransactions_idle [of m env] have "m' = m" "out = []" by simp_all
  with quiet_section [OF tr, of "[]" m] show ?thesis by simp
next
  case True
  with UpdateTransactions_Inr [OF u] obtain ss w addresses where
    i: "BRClientSyncManagerScanStateInit env (scanState m) (wallet m)
          (syncedBlockHeight m) (networkBlockHeight m) (requestIdGenerator m + 1) = Inr (ss, w)"
    and m': "m' = m \<lparr> requestIdGenerator := requestIdGenerator m + 1, wallet := w,
                      scanState := ss \<rparr>"
    and o: "out = (if isFullScan ss then [eventCallback SYNC_MANAGER_SYNC_STARTED] else []) @
              [funcGetTransactions addresses (begBlockNumber ss) (endBlockNumber ss)
                 (requestId ss)]"
    by auto
  from ScanStateInit_window [OF i]
  have r: "requestId ss = requestIdGenerator m + 1" by simp
  note f = tracks_fresh [OF tr]
  from o r have c: "clientCalls out =
      [funcGetTransactions addresses (begBlockNumber ss) (endBlockNumber ss)
         (requestIdGenerator m + 1)]"
    by (simp add: clientCalls_def)
  with f(2) have "acceptSection t SecUpdateTransactions out =
      Some (requestIdGenerator m + 1, requestIdGenerator m + 1)"
    by (cases t) simp
  moreover from m' r f(3) tr have
    "tracks m' (requestIdGenerator m + 1, requestIdGenerator m + 1)"
    by (simp add: tracks_def)
  moreover from c f(3) have "list_all (\<lambda>r. 0 < r) (clientRequestIds out)"
    by (simp add: clientRequestIds_calls)
  ultimately show ?thesis by blast
qed

lemma section_AnnounceGetTransactionsDone:
  assumes tr: "tracks m t"
    and d: "BRClientSyncManagerAnnounceGetTransactionsDone env m rid success = Inr (m', out)"
  shows "\<exists>t'. acceptSection t (SecAnnounceGetTransactionsDone rid success) out = Some t' \<and>
           tracks m' t' \<and> list_all (\<lambda>r. 0 < r) (clientRequestIds out)"
proof -
  from AnnounceGetTransactionsDone_Inr [OF d]
  have g: "requestIdGenerator m' = requestIdGenerator m" by simp
  from AnnounceGetTransactionsDone_Inr [OF d] consider
    "\<forall>c \<in> set out. requestIdOf c = None"
    "scanState m' = scanState m \<or> scanState m' = BRClientSyncManagerScanStateWipe (scanState m')" |
    as b e where "out = [funcGetTransactions as b e (requestId (scanState m))]"
    "knownAddresses (scanState m) \<noteq> None"
    "requestId (scanState m') = requestId (scanState m)"
    by auto
  then show ?thesis
  proof cases
    case 1
    with quiet_section [OF tr, of out m'] g show ?thesis by simp
  next
    case 2
    from tr 2(2) have cur: "requestId (scanState m) = snd t" "0 < snd t"
      by (auto simp: tracks_def)
    from 2(1) cur have
      "acceptSection t (SecAnnounceGetTransactionsDone rid success) out = Some t"
      by (cases t) (simp add: clientCalls_def)
    moreover from tr 2(3) g cur have "tracks m' t" by (auto simp: tracks_def)
    moreover from 2(1) cur have "list_all (\<lambda>r. 0 < r) (clientRequestIds out)"
      by (simp add: clientRequestIds_calls clientCalls_def)
    ultimately show ?thesis by blast
  qed
qed

lemma section_safe:
  assumes tr: "tracks m t" and r: "runSection env m s = Inr (m', out)"
  shows "\<exists>t'. acceptSection t s out = Some t' \<and> tracks m' t' \<and>
           list_all (\<lambda>r. 0 < r) (clientRequestIds out)"
proof (cases s)
  case SecConnect
  with r have "(\<forall>c \<in> set out. requestIdOf c = None) \<and>
      requestIdGenerator m \<le> requestIdGenerator m' \<and> scanState m' = scanState m"
    by (auto simp: connectLocked_def split: if_splits)
  with quiet_section [OF tr, of out m' s] show ?thesis by simp
next
  case SecUpdateBlockNumber
  with r section_UpdateBlockNumber [OF tr, of m' out] show ?thesis by simp
next
  case SecUpdateTransactions
  with r section_UpdateTransactions [OF tr, of env m' out] show ?thesis by simp
next
  case SecDisconnect
  with r have "(\<forall>c \<in> set out. requestIdOf c = None) \<and>
      requestIdGenerator m \<le> requestIdGenerator m' \<and>
      (scanState m' = scanState m \<or>
       scanState m' = BRClientSyncManagerScanStateWipe (scanState m'))"
    by (auto simp: BRClientSyncManagerDisconnect_def BRClientSyncManagerScanStateWipe_def
          split: if_splits)
  with quiet_section [OF tr, of out m' s] show ?thesis by simp
next
  case (SecScanToDepth depth)
  with r have "(\<forall>c \<in> set out. requestIdOf c = None) \<and>
      requestIdGenerator m \<le> requestIdGenerator m' \<and>
      (scanState m' = scanState m \<or>
       scanState m' = BRClientSyncManagerScanStateWipe (scanState m'))"
    by (auto simp: scanToDepthLocked_def BRClientSyncManagerScanStateWipe_def split: if_splits)
  with quiet_section [OF tr, of out m' s] show ?thesis by simp
next
  case (SecSubmit tx)
  with r section_Submit [OF tr, of env tx m' out] show ?thesis by simp
next
  case (SecAnnounceGetBlockNumber rid h)
  with r have "(\<forall>c \<in> set out. requestIdOf c = None) \<and>
      requestIdGenerator m \<le> requestIdGenerator m' \<and> scanState m' = scanState m"
    by (auto simp: BRClientSyncManagerAnnounceGetBlockNumber_def split: if_splits)
  with quiet_section [OF tr, of out m' s] show ?thesis by simp
next
  case (SecAnnounceGetTransactionsItem rid txn ts h)
  with r have "(\<forall>c \<in> set out. requestIdOf c = None) \<and>
      requestIdGenerator m \<le> requestIdGenerator m' \<and> scanState m' = scanState m"
    by (auto simp: BRClientSyncManagerAnnounceGetTransactionsItem_def
          split: if_splits option.splits)
  with quiet_section [OF tr, of out m' s] show ?thesis by simp
next
  case (SecAnnounceGetTransactionsDone rid success)
  with r section_AnnounceGetTransactionsDone [OF tr, of env rid success m' out]
  show ?thesis by simp
next
  case (SecAnnounceSubmitTransaction rid tx error)
  with r have "(\<forall>c \<in> set out. requestIdOf c = None) \<and>
      requestIdGenerator m \<le> requestIdGenerator m' \<and> scanState m' = scanState m"
    by (auto simp: BRClientSyncManagerAnnounceSubmitTransaction_def split: if_splits)
  with quiet_section [OF tr, of out m' s] show ?thesis by simp
next
  case (SecWalletChanged w)
  with r have "(\<forall>c \<in> set out. requestIdOf c = None) \<and>
      requestIdGenerator m \<le> requestIdGenerator m' \<and> scanState m' = scanState m"
    by auto
  with quiet_section [OF tr, of out m' s] show ?thesis by simp
qed

lemma clientRequestIds_append:
  "clientRequestIds (a @ b) = clientRequestIds a @ clientRequestIds b"
  by (simp add: clientRequestIds_calls clientCalls_def)

lemma log_accepted:
  "tracks m t \<Longrightarrow>
     acceptLog (Some t) (sectionLog env m secs) \<noteq> None \<and>
     list_all (\<lambda>r. 0 < r) (clientRequestIds (concat (map snd (sectionLog env m secs))))"
proof (induction secs arbitrary: m t)
  case Nil
  then show ?case by (simp add: clientRequestIds_calls clientCalls_def)
next
  case (Cons s secs)
  show ?case
  proof (cases "runSection env m s")
    case (Inl e)
    then show ?thesis by (simp add: clientRequestIds_calls clientCalls_def)
  next
    case (Inr p)
    obtain m' out where p: "p = (m', out)" by (cases p)
    from section_safe [OF Cons.prems] Inr p obtain t' where
      t': "acceptSection t s out = Some t'" "tracks m' t'"
      "list_all (\<lambda>r. 0 < r) (clientRequestIds out)"
      by blast
    from Cons.IH [OF t'(2)] t'(1,3) Inr p show ?thesis
      by (simp add: clientRequestIds_append)
  qed
qed

lemma New_tracks:
  "BRClientSyncManagerNew env w earliestKeyTime height = Inr m \<Longrightarrow> tracks m (0, 0)"
  by (auto simp: BRClientSyncManagerNew_def tracks_def BRClientSyncManagerScanStateWipe_def
        split: option.splits)

subsection \<open>An operation is the sequence of its sections\<close>

lemma sectionLog_one:
  "runSection env m s = Inr (m1, out1) \<Longrightarrow>
     sectionLog env m (s # rest) = (s, out1) # sectionLog env m1 rest"
  by simp

lemma step_sections:
  assumes s: "step env m operation = Inr (m1, out1)"
  shows "\<exists>l. concat (map snd l) = out1 \<and>
           (\<forall>rest. sectionLog env m (sectionsOf operation @ rest) = l @ sectionLog env m1 rest)"
proof -
  have three: "\<exists>l. concat (map snd l) = out1 \<and>
           (\<forall>rest. sectionLog env m ([a, SecUpdateBlockNumber, SecUpdateTransactions] @ rest) =
              l @ sectionLog env m1 rest)"
    if r: "andThen (andThen (runSection env m a) BRClientSyncManagerUpdateBlockNumber)
             (BRClientSyncManagerUpdateTransactions env) = Inr (m1, out1)" for a
  proof -
    from r obtain ma oa mb ob oc where
      a: "runSection env m a = Inr (ma, oa)"
      and b: "BRClientSyncManagerUpdateBlockNumber ma = Inr (mb, ob)"
      and c: "BRClientSyncManagerUpdateTransactions env mb = Inr (m1, oc)"
      and o: "out1 = (oa @ ob) @ oc"
      by (auto dest!: andThen_Inr)
    let ?l = "[(a, oa), (SecUpdateBlockNumber, ob), (SecUpdateTransactions, oc)]"
    from a b c o have "concat (map snd ?l) = out1 \<and>
        (\<forall>rest. sectionLog env m ([a, SecUpdateBlockNumber, SecUpdateTransactions] @ rest) =
           ?l @ sectionLog env m1 rest)"
      by simp
    then show ?thesis by blast
  qed
  have one: "\<exists>l. concat (map snd l) = out1 \<and>
           (\<forall>rest. sectionLog env m ([a] @ rest) = l @ sectionLog env m1 rest)"
    if r: "runSection env m a = Inr (m1, out1)" for a
  proof -
    from r have "concat (map snd [(a, out1)]) = out1 \<and>
        (\<forall>rest. sectionLog env m ([a] @ rest) = [(a, out1)] @ sectionLog env m1 rest)"
      by simp
    then show ?thesis by blast
  qed
  show ?thesis
  proof (cases operation)
    case Connect
    with s three [of SecConnect] show ?thesis
      by (simp add: BRClientSyncManagerConnect_def connectLocked_def)
  next
    case Disconnect
    with s one [of SecDisconnect] show ?thesis by simp
  next
    case Scan
    with s three [of "SecScanToDepth SYNC_DEPTH_HIGH"] show ?thesis
      by (simp add: BRClientSyncManagerScan_def BRClientSyncManagerScanToDepth_def)
  next
    case (ScanToDepth depth)
    with s three [of "SecScanToDepth depth"] show ?thesis
      by (simp add: BRClientSyncManagerScanToDepth_def)
  next
    case (Submit tx)
    with s one [of "SecSubmit tx"] show ?thesis by simp
  next
    case TickTock
    from s TickTock obtain mb ob oc where
      b: "BRClientSyncManagerUpdateBlockNumber m = Inr (mb, ob)"
      and c: "BRClientSyncManagerUpdateTransactions env mb = Inr (m1, oc)"
      and o: "out1 = ob @ oc"
      by (auto simp: BRClientSyncManagerTickTock_def dest!: andThen_Inr)
    let ?l = "[(SecUpdateBlockNumber, ob), (SecUpdateTransactions, oc)]"
    from b c o TickTock have "concat (map snd ?l) = out1 \<and>
        (\<forall>rest. sectionLog env m (sectionsOf operation @ rest) = ?l @ sectionLog env m1 rest)"
      by simp
    then show ?thesis by blast
  next
    case (AnnounceGetBlockNumber rid h)
    with s one [of "SecAnnounceGetBlockNumber rid h"] show ?thesis by simp
  next
    case (AnnounceGetTransactionsItem rid txn ts h)
    with s one [of "SecAnnounceGetTransactionsItem rid txn ts h"] show ?thesis by simp
  next
    case (AnnounceGetTransactionsDone rid success)
    with s one [of "SecAnnounceGetTransactionsDone rid success"] show ?thesis by simp
  next
    case (AnnounceSubmitTransaction rid tx error)
    with s one [of "SecAnnounceSubmitTransaction rid tx error"] show ?thesis by simp
  next
    case (WalletChanged w)
    with s one [of "SecWalletChanged w"] show ?thesis by simp
  qed
qed

lemma run_sections:
  "run env m ops = Inr (m', out) \<Longrightarrow>
     out = concat (map snd (sectionLog env m (concat (map sectionsOf ops))))"
proof (induction ops arbitrary: m out)
  case Nil
  then show ?case by simp
next
  case (Cons operation ops)
  from Cons.prems obtain m1 out1 out2 where
    s: "step env m operation = Inr (m1, out1)" and r: "run env m1 ops = Inr (m', out2)"
    and o: "out = out1 @ out2"
    by (auto split: sum.splits prod.splits)
  from step_sections [OF s] obtain l where
    l: "concat (map snd l) = out1"
    "\<And>rest. sectionLog env m (sectionsOf operation @ rest) = l @ sectionLog env m1 rest"
    by blast
  from Cons.IH [OF r] l o show ?case by simp
qed

subsection \<open>Fields no operation moves backwards\<close>

lemma UpdateBlockNumber_frame:
  "BRClientSyncManagerUpdateBlockNumber m = Inr (m', out) \<Longrightarrow>
     initBlockHeight m' = initBlockHeight m \<and> networkBlockHeight m' = networkBlockHeight m \<and>
     isConnected m' = isConnected m \<and> syncedBlockHeight m' = syncedBlockHeight m \<and>
     scanState m' = scanState m \<and> wallet m' = wallet m"
  by (auto dest!: UpdateBlockNumber_Inr)

lemma UpdateTransactions_frame:
  assumes "BRClientSyncManagerUpdateTransactions env m = Inr (m', out)"
  shows "initBlockHeight m' = initBlockHeight m \<and> networkBlockHeight m' = networkBlockHeight m \<and>
         isConnected m' = isConnected m \<and> syncedBlockHeight m' = syncedBlockHeight m"
proof (cases "isConnected m \<and> requestId (scanState m) = 0")
  case True
  with UpdateTransactions_Inr [OF assms] show ?thesis by auto
next
  case False
  with assms UpdateTransactions_idle [of m env] show ?thesis by simp
qed

lemma scanToDepthLocked_frame:
  "scanToDepthLocked env m depth = Inr (m', out) \<Longrightarrow>
     initBlockHeight m' = initBlockHeight m \<and> networkBlockHeight m' = networkBlockHeight m \<and>
     isConnected m' = isConnected m"
  by (auto simp: scanToDepthLocked_def split: if_splits)

lemma Connect_frame:
  "BRClientSyncManagerConnect env m = Inr (m', out) \<Longrightarrow>
     initBlockHeight m' = initBlockHeight m \<and> networkBlockHeight m' = networkBlockHeight m"
  unfolding BRClientSyncManagerConnect_def
  by (auto dest!: andThen_Inr UpdateBlockNumber_frame UpdateTransactions_frame split: if_splits)

lemma ScanToDepth_frame:
  "BRClientSyncManagerScanToDepth env m depth = Inr (m', out) \<Longrightarrow>
     initBlockHeight m' = initBlockHeight m \<and> networkBlockHeight m' = networkBlockHeight m"
  unfolding BRClientSyncManagerScanToDepth_def
  by (auto dest!: andThen_Inr UpdateBlockNumber_frame UpdateTransactions_frame
        scanToDepthLocked_frame)

lemma TickTock_frame:
  "BRClientSyncManagerTickTock env m = Inr (m', out) \<Longrightarrow>
     initBlockHeight m' = initBlockHeight m \<and> networkBlockHeight m' = networkBlockHeight m"
  unfolding BRClientSyncManagerTickTock_def
  by (auto dest!: andThen_Inr UpdateBlockNumber_frame UpdateTransactions_frame)

lemma Disconnect_frame:
  "BRClientSyncManagerDisconnect m = Inr (m', out) \<Longrightarrow>
     initBlockHeight m' = initBlockHeight m \<and> networkBlockHeight m' = networkBlockHeight m"
  by (auto simp: BRClientSyncManagerDisconnect_def split: if_splits)

lemma Submit_frame:
  "BRClientSyncManagerSubmit env m tx = Inr (m', out) \<Longrightarrow>
     initBlockHeight m' = initBlockHeight m \<and> networkBlockHeight m' = networkBlockHeight m"
  by (auto simp: BRClientSyncManagerSubmit_def split: if_splits sum.splits prod.splits
        dest!: GenerateRid_Inr)

lemma AnnounceGetBlockNumber_frame:
  "BRClientSyncManagerAnnounceGetBlockNumber m rid h = Inr (m', out) \<Longrightarrow>
     initBlockHeight m' = initBlockHeight m \<and> networkBlockHeight m \<le> networkBlockHeight m'"
  by (auto simp: BRClientSyncManagerAnnounceGetBlockNumber_def split: if_splits)

lemma AnnounceGetTransactionsItem_frame:
  "BRClientSyncManagerAnnounceGetTransactionsItem env m rid txn ts h = Inr (m', out) \<Longrightarrow>
     initBlockHeight m' = initBlockHeight m \<and> networkBlockHeight m' = networkBlockHeight m"
  by (auto simp: BRClientSyncManagerAnnounceGetTransactionsItem_def
        split: if_splits option.splits)

lemma AnnounceGetTransactionsDone_frame:
  "BRClientSyncManagerAnnounceGetTransactionsDone env m rid success = Inr (m', out) \<Longrightarrow>
     initBlockHeight m' = initBlockHeight m \<and> networkBlockHeight m' = networkBlockHeight m"
  by (auto simp: BRClientSyncManagerAnnounceGetTransactionsDone_def
        split: if_splits sum.splits prod.splits)

lemma AnnounceSubmitTransaction_frame:
  "BRClientSyncManagerAnnounceSubmitTransaction env m rid tx error = Inr (m', out) \<Longrightarrow>
     initBlockHeight m' = initBlockHeight m \<and> networkBlockHeight m' = networkBlockHeight m"
  by (auto simp: BRClientSyncManagerAnnounceSubmitTransaction_def split: if_splits)

lemma step_frame:
  assumes s: "step env m operation = Inr (m', out)"
  shows "initBlockHeight m' = initBlockHeight m \<and> networkBlockHeight m \<le> networkBlockHeight m'"
proof (cases operation)
  case Connect
  with s show ?thesis using Connect_frame [of env m m' out] by simp
next
  case Disconnect
  with s show ?thesis using Disconnect_frame [of m m' out] by simp
next
  case Scan
  with s show ?thesis
    using ScanToDepth_frame [of env m SYNC_DEPTH_HIGH m' out]
    by (simp add: BRClientSyncManagerScan_def)
next
  case (ScanToDepth depth)
  with s show ?thesis using ScanToDepth_frame [of env m depth m' out] by simp
next
  case (Submit tx)
  with s show ?thesis using Submit_frame [of env m tx m' out] by simp
next
  case TickTock
  with s show ?thesis using TickTock_frame [of env m m' out] by simp
next
  case (AnnounceGetBlockNumber rid h)
  with s show ?thesis using AnnounceGetBlockNumber_frame [of m rid h m' out] by simp
next
  case (AnnounceGetTransactionsItem rid txn ts h)
  with s show ?thesis
    using AnnounceGetTransactionsItem_frame [of env m rid txn ts h m' out] by simp
next
  case (AnnounceGetTransactionsDone rid success)
  with s show ?thesis
    using AnnounceGetTransactionsDone_frame [of env m rid success m' out] by simp
next
  case (AnnounceSubmitTransaction rid tx error)
  with s show ?thesis
    using AnnounceSubmitTransaction_frame [of env m rid tx error m' out] by simp
next
  case (WalletChanged w)
  with s show ?thesis by auto
qed

lemma run_frame:
  "run env m ops = Inr (m', out) \<Longrightarrow>
     initBlockHeight m' = initBlockHeight m \<and> networkBlockHeight m \<le> networkBlockHeight m'"
proof (induction ops arbitrary: m out)
  case Nil
  then show ?case by simp
next
  case (Cons operation ops)
  from Cons.prems obtain m1 out1 out2 where
    s: "step env m operation = Inr (m1, out1)" and r: "run env m1 ops = Inr (m', out2)"
    by (auto split: sum.splits prod.splits)
  from step_frame [OF s] Cons.IH [OF r] show ?case by auto
qed

section \<open>Concrete runs\<close>

lemma toy_new: "BRClientSyncManagerNew toyEnv toyWallet0 2000000 244 = Inr toyManager0"
  by code_simp

lemma toy_connect:
  "run toyEnv toyManager0 [Connect] =
     Inr (toyManager1,
          [eventCallback SYNC_MANAGER_CONNECTED, funcGetBlockNumber 1,
           eventCallback SYNC_MANAGER_SYNC_STARTED,
           funcGetTransactions [''E0'', ''E1'', ''I0''] 100 245 2])"
  by code_simp

section \<open>Block height announcements (C3)\<close>

text \<open>
  C3. \<open>announceGetBlockNumber (rid, h)\<close> accepts the height exactly when it is greater than
  \<open>networkBlockHeight\<close> and the manager is connected; when accepted, \<open>networkBlockHeight\<close>
  becomes \<open>h\<close> and the only callback is one \<open>BlockHeightUpdated {h}\<close> event; otherwise
  nothing changes and nothing is emitted. Over any sequence of operations that runs to
  its end, the height returned by \<open>getBlockHeight\<close> never decreases.
\<close>

theorem announceGetBlockNumber_monotone:
  "(h > networkBlockHeight m \<and> isConnected m \<longrightarrow>
      BRClientSyncManagerAnnounceGetBlockNumber m rid h =
        Inr (m \<lparr> networkBlockHeight := h \<rparr>,
             [eventCallback (SYNC_MANAGER_BLOCK_HEIGHT_UPDATED h)])) \<and>
   (\<not> (h > networkBlockHeight m \<and> isConnected m) \<longrightarrow>
      BRClientSyncManagerAnnounceGetBlockNumber m rid h = Inr (m, [])) \<and>
   (run env m ops = Inr (m', out) \<longrightarrow>
      BRClientSyncManagerGetBlockHeight m \<le> BRClientSyncManagerGetBlockHeight m')"
  using run_frame [of env m ops m' out]
  by (simp add: BRClientSyncManagerAnnounceGetBlockNumber_def
        BRClientSyncManagerGetBlockHeight_def)

lemma toy_run_heights:
  "run toyEnv toyManager1 [AnnounceGetBlockNumber 1 300, AnnounceGetBlockNumber 3 250, Disconnect] =
     Inr (toyManager1 \<lparr> networkBlockHeight := 300, isConnected := False,
                        scanState := BRClientSyncManagerScanStateWipe (scanState toyManager1) \<rparr>,
          [eventCallback (SYNC_MANAGER_BLOCK_HEIGHT_UPDATED 300),
           eventCallback (SYNC_MANAGER_SYNC_STOPPED (- 1)),
           eventCallback SYNC_MANAGER_DISCONNECTED])"
  by code_simp

theorem announceGetBlockNumber_monotone_witness:
  "BRClientSyncManagerAnnounceGetBlockNumber toyManager1 1 300 =
     Inr (toyManager1 \<lparr> networkBlockHeight := 300 \<rparr>,
          [eventCallback (SYNC_MANAGER_BLOCK_HEIGHT_UPDATED 300)]) \<and>
   BRClientSyncManagerAnnounceGetBlockNumber toyManager1 1 200 = Inr (toyManager1, []) \<and>
   BRClientSyncManagerGetBlockHeight toyManager1 \<le>
     BRClientSyncManagerGetBlockHeight
       (toyManager1 \<lparr> networkBlockHeight := 300, isConnected := False,
                      scanState := BRClientSyncManagerScanStateWipe (scanState toyManager1) \<rparr>)"
  using announceGetBlockNumber_monotone [where h = 300 and m = toyManager1 and rid = 1
      and env = toyEnv
      and ops = "[AnnounceGetBlockNumber 1 300, AnnounceGetBlockNumber 3 250, Disconnect]"
      and m' = "toyManager1 \<lparr> networkBlockHeight := 300, isConnected := False,
                     scanState := BRClientSyncManagerScanStateWipe (scanState toyManager1) \<rparr>"
      and out = "[eventCallback (SYNC_MANAGER_BLOCK_HEIGHT_UPDATED 300),
        eventCallback (SYNC_MANAGER_SYNC_STOPPED (- 1)),
        eventCallback SYNC_MANAGER_DISCONNECTED]"]
    announceGetBlockNumber_monotone [where h = 200 and m = toyManager1 and rid = 1
      and env = toyEnv and ops = "[]" and m' = toyManager1 and out = "[]"]
    toy_run_heights
  by (simp add: toyManager1_def)


section \<open>Disconnect (C4)\<close>

text \<open>
  C4. \<open>disconnect\<close> on a client-mode manager changes nothing and emits nothing when the
  manager is not connected. When it is connected, the connection flag is cleared, the
  scan state is wiped so that no scan is in progress afterwards, and the callbacks are
  \<open>SyncStopped {-1}\<close> exactly when the wiped scan was a full scan, followed by
  \<open>Disconnected\<close>.
\<close>

theorem disconnect_effect:
  "(\<not> isConnected m \<longrightarrow> BRClientSyncManagerDisconnect m = Inr (m, [])) \<and>
   (isConnected m \<longrightarrow>
      BRClientSyncManagerDisconnect m =
        Inr (m \<lparr> isConnected := False,
                  scanState := BRClientSyncManagerScanStateWipe (scanState m) \<rparr>,
             (if isFullScan (scanState m)
              then [eventCallback (SYNC_MANAGER_SYNC_STOPPED (- 1))] else []) @
             [eventCallback SYNC_MANAGER_DISCONNECTED]) \<and>
      \<not> BRClientSyncManagerScanStateIsInProgress
          (BRClientSyncManagerScanStateWipe (scanState m)) \<and>
      knownAddresses (BRClientSyncManagerScanStateWipe (scanState m)) = None \<and>
      \<not> isFullScan (BRClientSyncManagerScanStateWipe (scanState m)))"
  by (simp add: BRClientSyncManagerDisconnect_def BRClientSyncManagerScanStateIsFullScan_def
        BRClientSyncManagerScanStateIsInProgress_def)

theorem disconnect_effect_witness:
  "BRClientSyncManagerDisconnect toyManager0 = Inr (toyManager0, []) \<and>
   BRClientSyncManagerDisconnect toyManager1 =
     Inr (toyManager1 \<lparr> isConnected := False,
                        scanState := BRClientSyncManagerScanStateWipe (scanState toyManager1) \<rparr>,
          [eventCallback (SYNC_MANAGER_SYNC_STOPPED (- 1)),
           eventCallback SYNC_MANAGER_DISCONNECTED]) \<and>
   \<not> BRClientSyncManagerScanStateIsInProgress
       (BRClientSyncManagerScanStateWipe (scanState toyManager1))"
  using disconnect_effect [of toyManager0] disconnect_effect [of toyManager1]
  by (simp add: toyManager0_def toyManager1_def)

section \<open>Peer transaction status update (C5)\<close>

text \<open>
  C5. For the \<open>txStatusUpdate\<close> callback of a P2P-mode manager that is connected and in a
  full scan while the peer manager is disconnected, the specification gives the emitted
  \<open>SyncStopped\<close> event the reason -1. On such a manager, with network height 100 and a
  peer manager whose last block height is 100, the callback clears both flags and emits
  \<open>SyncStopped\<close> with reason 0, then \<open>Disconnected\<close>, then \<open>TxnsUpdated\<close>.
\<close>

theorem txStatusUpdate_sync_stopped_reason:
  "PeerSyncManagerTxStatusUpdate
     \<lparr> peerNetworkBlockHeight = 100, peerIsConnected = True, peerIsFullScan = True \<rparr>
     BRPeerStatusDisconnected 100 =
   Inr (\<lparr> peerNetworkBlockHeight = 100, peerIsConnected = False, peerIsFullScan = False \<rparr>,
        [eventCallback (SYNC_MANAGER_SYNC_STOPPED 0),
         eventCallback SYNC_MANAGER_DISCONNECTED,
         eventCallback SYNC_MANAGER_TXNS_UPDATED])"
  by (simp add: PeerSyncManagerTxStatusUpdate_def)

section \<open>The initial block height (C6)\<close>




section \<open>Submit (C8)\<close>

text \<open>
  C8. \<open>submit (tx)\<close> on a connected client-mode manager increments the request id
  generator and its only callback is the client's \<open>submitTransaction\<close> with the serialised
  transaction, its hash and the new id; no \<open>TxnSubmitted\<close> event is emitted. On a
  disconnected manager the state is unchanged and the only callback is the event
  \<open>TxnSubmitted {tx, -1}\<close>; the client is not called.
\<close>

theorem submit_effect:
  "(isConnected m \<and> requestIdGenerator m < INT_MAX \<longrightarrow>
      BRClientSyncManagerSubmit env m tx =
        Inr (m \<lparr> requestIdGenerator := requestIdGenerator m + 1 \<rparr>,
             [funcSubmitTransaction (BRTransactionSerialize env tx) (txHash tx)
                (requestIdGenerator m + 1)])) \<and>
   (\<not> isConnected m \<longrightarrow>
      BRClientSyncManagerSubmit env m tx =
        Inr (m, [eventCallback (SYNC_MANAGER_TXN_SUBMITTED tx (- 1))]))"
  by (simp add: BRClientSyncManagerSubmit_def BRClientSyncManagerGenerateRid_def)

theorem submit_effect_witness:
  "BRClientSyncManagerSubmit toyEnv toyManager1
     \<lparr> txHash = 9, blockHeight = 0x7FFFFFFF, timestamp = 0, txBody = [1] \<rparr> =
     Inr (toyManager1 \<lparr> requestIdGenerator := 3 \<rparr>, [funcSubmitTransaction [9, 1] 9 3]) \<and>
   BRClientSyncManagerSubmit toyEnv toyManager0
     \<lparr> txHash = 9, blockHeight = 0x7FFFFFFF, timestamp = 0, txBody = [1] \<rparr> =
     Inr (toyManager0,
          [eventCallback (SYNC_MANAGER_TXN_SUBMITTED
             \<lparr> txHash = 9, blockHeight = 0x7FFFFFFF, timestamp = 0, txBody = [1] \<rparr> (- 1))])"
  using submit_effect [of toyManager1 toyEnv
      "\<lparr> txHash = 9, blockHeight = 0x7FFFFFFF, timestamp = 0, txBody = [1] \<rparr>"]
    submit_effect [of toyManager0 toyEnv
      "\<lparr> txHash = 9, blockHeight = 0x7FFFFFFF, timestamp = 0, txBody = [1] \<rparr>"]
  by (simp add: toyManager0_def toyManager1_def toyEnv_def INT_MAX_def)

section \<open>Announced transactions (C10)\<close>

text \<open>
  C10. \<open>announceGetTransactionsItem (rid, bytes, ts, height)\<close> never faults, invokes no
  callback and touches nothing but the wallet. The wallet is changed only if the bytes
  parse as a transaction and the parsed transaction is signed; when they do not parse or
  the transaction is unsigned, the manager and its wallet are unchanged, whatever the
  request id and the connection state.
\<close>

theorem announceGetTransactionsItem_guard:
  "(\<exists>m'. BRClientSyncManagerAnnounceGetTransactionsItem env m rid txn ts h = Inr (m', []) \<and>
          m' = m \<lparr> wallet := wallet m' \<rparr> \<and>
          (wallet m' \<noteq> wallet m \<longrightarrow>
             (\<exists>transaction. BRTransactionParse env txn = Some transaction \<and>
                             BRTransactionIsSigned env transaction))) \<and>
   ((BRTransactionParse env txn = None \<or>
     (\<exists>transaction. BRTransactionParse env txn = Some transaction \<and>
                     \<not> BRTransactionIsSigned env transaction)) \<longrightarrow>
      BRClientSyncManagerAnnounceGetTransactionsItem env m rid txn ts h = Inr (m, []))"
  by (auto simp: BRClientSyncManagerAnnounceGetTransactionsItem_def split: option.splits)

lemma toy_item_signed:
  "BRClientSyncManagerAnnounceGetTransactionsItem toyEnv toyManager1 2 [7, 1] 5 200 =
     Inr (toyManager1
            \<lparr> wallet := \<lparr> usedCount = 1, generated = 2,
                           toyTransactions =
                             [\<lparr> txHash = 7, blockHeight = 200, timestamp = 5, txBody = [1] \<rparr>] \<rparr> \<rparr>,
          [])"
  by code_simp

theorem announceGetTransactionsItem_guard_witness:
  "BRTransactionParse toyEnv [] = None \<and>
   BRClientSyncManagerAnnounceGetTransactionsItem toyEnv toyManager1 2 [] 5 200 =
     Inr (toyManager1, []) \<and>
   BRTransactionParse toyEnv [7] =
     Some \<lparr> txHash = 7, blockHeight = 0x7FFFFFFF, timestamp = 0, txBody = [] \<rparr> \<and>
   \<not> BRTransactionIsSigned toyEnv
       \<lparr> txHash = 7, blockHeight = 0x7FFFFFFF, timestamp = 0, txBody = [] \<rparr> \<and>
   BRClientSyncManagerAnnounceGetTransactionsItem toyEnv toyManager1 2 [7] 5 200 =
     Inr (toyManager1, []) \<and>
   (\<exists>transaction. BRTransactionParse toyEnv [7, 1] = Some transaction \<and>
                   BRTransactionIsSigned toyEnv transaction)"
  using announceGetTransactionsItem_guard [of toyEnv toyManager1 2 "[]" 5 200]
    announceGetTransactionsItem_guard [of toyEnv toyManager1 2 "[7]" 5 200]
    announceGetTransactionsItem_guard [of toyEnv toyManager1 2 "[7, 1]" 5 200]
    toy_item_signed
  by (simp add: toyEnv_def toyParse_def toyManager1_def)


subsection \<open>Completion of the scan state initialisation\<close>

lemma firstUnusedAddress_wallet:
  "fst (firstUnusedAddress env w internal a) = fst (firstUnusedAddress env w internal b)"
  by (simp add: firstUnusedAddress_def split: prod.splits list.splits)

lemma set_fillAddressSetLoop: "set (fillAddressSetLoop acc xs) = set acc \<union> set xs"
  by (induction xs arbitrary: acc) auto

lemma window_nonempty:
  fixes e s :: uint64_t
  assumes "e \<noteq> 0"
  shows "min s (if e \<ge> 144 then e - 144 else 0) < e"
proof (cases "e \<ge> 144")
  case True
  then have "e - 144 < e"
    by (simp add: word_le_nat_alt word_less_nat_alt unat_sub)
  moreover have "min s (e - 144) \<le> e - 144" by simp
  ultimately show ?thesis using True by (auto simp del: min.cobounded2)
next
  case False
  with assms show ?thesis by (simp add: min_def word_neq_0_conv)
qed

lemma ScanStateInit_total:
  assumes "max s n + 1 \<noteq> 0" "knownAddresses ss = None"
    and "BRWalletAllAddrs env (fst (currentFirstUnused env w)) \<noteq> []"
  shows "\<exists>ss' w' addresses.
           BRClientSyncManagerScanStateInit env ss w s n rid = Inr (ss', w') \<and>
           knownAddresses ss' = Some addresses \<and> addresses \<noteq> []"
proof -
  obtain w2 a2 where f2: "firstUnusedAddress env (generateAddresses env w) False
                            (lastExternalAddress ss) = (w2, a2)"
    by (cases "firstUnusedAddress env (generateAddresses env w) False (lastExternalAddress ss)")
  obtain w3 a3 where f3: "firstUnusedAddress env w2 True (lastInternalAddress ss) = (w3, a3)"
    by (cases "firstUnusedAddress env w2 True (lastInternalAddress ss)")
  have w2: "fst (firstUnusedAddress env (generateAddresses env w) False BR_ADDRESS_NONE) = w2"
    using f2 firstUnusedAddress_wallet [of env "generateAddresses env w" False BR_ADDRESS_NONE
        "lastExternalAddress ss"]
    by simp
  have w3: "fst (firstUnusedAddress env w2 True BR_ADDRESS_NONE) = w3"
    using f3 firstUnusedAddress_wallet [of env w2 True BR_ADDRESS_NONE "lastInternalAddress ss"]
    by simp
  have cur: "fst (currentFirstUnused env w) = w3"
    using w2 w3 by (auto simp: currentFirstUnused_def Let_def split: prod.splits)
  with assms(3) have "getWalletAddresses env w3 \<noteq> []"
    by (simp add: getWalletAddresses_def)
  then have "set (fillWalletAddressSet env [] w3) \<noteq> {}"
    by (simp add: fillWalletAddressSet_def set_fillAddressSetLoop)
  then have ne: "fillWalletAddressSet env [] w3 \<noteq> []" by auto
  define e where "e = max s n + 1"
  from window_nonempty [OF assms(1), of s]
  have "min s (if e \<ge> 144 then e - 144 else 0) < e"
    by (simp only: e_def)
  with assms(2) f2 f3 ne show ?thesis
    unfolding BRClientSyncManagerScanStateInit_def Let_def offset_144 e_def [symmetric]
    by simp
qed

lemma UpdateTransactions_total:
  assumes "isConnected m" "requestId (scanState m) = 0" "requestIdGenerator m < INT_MAX"
    and "max (syncedBlockHeight m) (networkBlockHeight m) + 1 \<noteq> 0"
    and "knownAddresses (scanState m) = None"
    and "BRWalletAllAddrs env (fst (currentFirstUnused env (wallet m))) \<noteq> []"
  shows "\<exists>m' out. BRClientSyncManagerUpdateTransactions env m = Inr (m', out)"
proof -
  from ScanStateInit_total [OF assms(4) assms(5) assms(6), of "requestIdGenerator m + 1"]
  obtain ss' w' addresses where
    "BRClientSyncManagerScanStateInit env (scanState m) (wallet m) (syncedBlockHeight m)
       (networkBlockHeight m) (requestIdGenerator m + 1) = Inr (ss', w')"
    "knownAddresses ss' = Some addresses" "addresses \<noteq> []"
    by blast
  with assms(1,2,3) show ?thesis
    by (simp add: BRClientSyncManagerUpdateTransactions_def
          BRClientSyncManagerScanStateIsInProgress_def BRClientSyncManagerGenerateRid_def
          BRClientSyncManagerScanStateGetAddresses_def)
qed

section \<open>The scan window (C2)\<close>

text \<open>
  C2. \<open>updateTransactions\<close> on a client-mode manager that is disconnected or has a scan
  in progress changes no state and invokes no callback. On a connected manager with no
  scan in progress, whenever it completes, the new scan window has
  \<open>endBlockNumber = max (syncedBlockHeight, networkBlockHeight) + 1\<close> and
  \<open>begBlockNumber = min (syncedBlockHeight, endBlockNumber - OFFSET)\<close>, the subtraction
  stopping at zero, with \<open>OFFSET = 144\<close>; the scan is classified as full exactly when
  \<open>endBlockNumber - begBlockNumber > OFFSET\<close>; \<open>SyncStarted\<close> is emitted exactly when the
  scan is full; and the last callback is the client's \<open>getTransactions\<close> with this window
  and the scan's request id. It completes whenever the request id generator is below
  \<open>INT_MAX\<close>, the window end does not wrap to zero, the idle scan state holds no address
  set and the wallet has an address.
\<close>

theorem updateTransactions_window:
  "(\<not> (isConnected m \<and> \<not> BRClientSyncManagerScanStateIsInProgress (scanState m)) \<longrightarrow>
      BRClientSyncManagerUpdateTransactions env m = Inr (m, [])) \<and>
   (isConnected m \<and> \<not> BRClientSyncManagerScanStateIsInProgress (scanState m) \<and>
    BRClientSyncManagerUpdateTransactions env m = Inr (m', out) \<longrightarrow>
      unat (endBlockNumber (scanState m')) =
        max (unat (syncedBlockHeight m)) (unat (networkBlockHeight m)) + 1 \<and>
      unat (begBlockNumber (scanState m')) =
        min (unat (syncedBlockHeight m))
          (unat (endBlockNumber (scanState m')) - unat BWM_BRD_SYNC_START_BLOCK_OFFSET) \<and>
      unat BWM_BRD_SYNC_START_BLOCK_OFFSET = 144 \<and>
      (isFullScan (scanState m') \<longleftrightarrow>
         unat (endBlockNumber (scanState m')) - unat (begBlockNumber (scanState m')) >
           unat BWM_BRD_SYNC_START_BLOCK_OFFSET) \<and>
      (eventCallback SYNC_MANAGER_SYNC_STARTED \<in> set out \<longleftrightarrow> isFullScan (scanState m')) \<and>
      (\<exists>addresses.
         out = (if isFullScan (scanState m')
                then [eventCallback SYNC_MANAGER_SYNC_STARTED] else []) @
               [funcGetTransactions addresses (begBlockNumber (scanState m'))
                  (endBlockNumber (scanState m')) (requestId (scanState m'))])) \<and>
   (isConnected m \<and> \<not> BRClientSyncManagerScanStateIsInProgress (scanState m) \<and>
    requestIdGenerator m < INT_MAX \<and>
    max (syncedBlockHeight m) (networkBlockHeight m) + 1 \<noteq> 0 \<and>
    knownAddresses (scanState m) = None \<and>
    BRWalletAllAddrs env (fst (currentFirstUnused env (wallet m))) \<noteq> [] \<longrightarrow>
      (\<exists>m1 out1. BRClientSyncManagerUpdateTransactions env m = Inr (m1, out1)))"
proof (intro conjI impI)
  assume "isConnected m \<and> \<not> BRClientSyncManagerScanStateIsInProgress (scanState m) \<and>
    requestIdGenerator m < INT_MAX \<and>
    max (syncedBlockHeight m) (networkBlockHeight m) + 1 \<noteq> 0 \<and>
    knownAddresses (scanState m) = None \<and>
    BRWalletAllAddrs env (fst (currentFirstUnused env (wallet m))) \<noteq> []"
  then show "\<exists>m1 out1. BRClientSyncManagerUpdateTransactions env m = Inr (m1, out1)"
    using UpdateTransactions_total [of m env]
    by (simp add: BRClientSyncManagerScanStateIsInProgress_def)
next
  assume "\<not> (isConnected m \<and> \<not> BRClientSyncManagerScanStateIsInProgress (scanState m))"
  then show "BRClientSyncManagerUpdateTransactions env m = Inr (m, [])"
    using UpdateTransactions_idle [of m env]
    by (simp add: BRClientSyncManagerScanStateIsInProgress_def)
next
  assume a: "isConnected m \<and> \<not> BRClientSyncManagerScanStateIsInProgress (scanState m) \<and>
             BRClientSyncManagerUpdateTransactions env m = Inr (m', out)"
  then have c: "isConnected m" and i: "requestId (scanState m) = 0"
    and u: "BRClientSyncManagerUpdateTransactions env m = Inr (m', out)"
    by (simp_all add: BRClientSyncManagerScanStateIsInProgress_def)
  from UpdateTransactions_Inr [OF u c i] obtain ss w addresses where
    init: "BRClientSyncManagerScanStateInit env (scanState m) (wallet m)
             (syncedBlockHeight m) (networkBlockHeight m) (requestIdGenerator m + 1) = Inr (ss, w)"
    and m': "scanState m' = ss"
    and o: "out = (if isFullScan ss then [eventCallback SYNC_MANAGER_SYNC_STARTED] else []) @
              [funcGetTransactions addresses (begBlockNumber ss) (endBlockNumber ss)
                 (requestId ss)]"
    by auto
  note win = ScanStateInit_window [OF init]
  show "unat (endBlockNumber (scanState m')) =
          max (unat (syncedBlockHeight m)) (unat (networkBlockHeight m)) + 1"
    using win m' by simp
  show "unat (begBlockNumber (scanState m')) =
          min (unat (syncedBlockHeight m))
            (unat (endBlockNumber (scanState m')) - unat BWM_BRD_SYNC_START_BLOCK_OFFSET)"
    using win m' by (simp add: offset_144)
  show "unat BWM_BRD_SYNC_START_BLOCK_OFFSET = 144"
    by (simp add: offset_144)
  show "isFullScan (scanState m') \<longleftrightarrow>
          unat (endBlockNumber (scanState m')) - unat (begBlockNumber (scanState m')) >
            unat BWM_BRD_SYNC_START_BLOCK_OFFSET"
    using win m' by (simp add: offset_144)
  show "eventCallback SYNC_MANAGER_SYNC_STARTED \<in> set out \<longleftrightarrow> isFullScan (scanState m')"
    using o m' by auto
  show "\<exists>addresses.
          out = (if isFullScan (scanState m')
                 then [eventCallback SYNC_MANAGER_SYNC_STARTED] else []) @
                [funcGetTransactions addresses (begBlockNumber (scanState m'))
                   (endBlockNumber (scanState m')) (requestId (scanState m'))]"
    using o m' by blast
qed

lemma toy_update_transactions:
  "BRClientSyncManagerUpdateTransactions toyEnv (toyManager0 \<lparr> isConnected := True \<rparr>) =
     Inr (toyManager1 \<lparr> requestIdGenerator := 1,
                        scanState := (scanState toyManager1) \<lparr> requestId := 1 \<rparr> \<rparr>,
          [eventCallback SYNC_MANAGER_SYNC_STARTED,
           funcGetTransactions [''E0'', ''E1'', ''I0''] 100 245 1])"
  by code_simp

lemma toy_wallet_has_addresses:
  "BRWalletAllAddrs toyEnv
     (fst (currentFirstUnused toyEnv (wallet (toyManager0 \<lparr> isConnected := True \<rparr>)))) =
     [''E0'', ''E1'', ''I0'']"
  by code_simp

theorem updateTransactions_window_witness:
  "BRClientSyncManagerUpdateTransactions toyEnv toyManager0 = Inr (toyManager0, []) \<and>
   BRClientSyncManagerUpdateTransactions toyEnv toyManager1 = Inr (toyManager1, []) \<and>
   isConnected (toyManager0 \<lparr> isConnected := True \<rparr>) \<and>
   \<not> BRClientSyncManagerScanStateIsInProgress
       (scanState (toyManager0 \<lparr> isConnected := True \<rparr>)) \<and>
   requestIdGenerator (toyManager0 \<lparr> isConnected := True \<rparr>) < INT_MAX \<and>
   knownAddresses (scanState (toyManager0 \<lparr> isConnected := True \<rparr>)) = None \<and>
   BRClientSyncManagerUpdateTransactions toyEnv (toyManager0 \<lparr> isConnected := True \<rparr>) =
     Inr (toyManager1 \<lparr> requestIdGenerator := 1,
                        scanState := (scanState toyManager1) \<lparr> requestId := 1 \<rparr> \<rparr>,
          [eventCallback SYNC_MANAGER_SYNC_STARTED,
           funcGetTransactions [''E0'', ''E1'', ''I0''] 100 245 1]) \<and>
   unat (endBlockNumber (scanState toyManager1)) =
     max (unat (100 :: uint64_t)) (unat (244 :: uint64_t)) + 1 \<and>
   unat (begBlockNumber (scanState toyManager1)) = min (unat (100 :: uint64_t)) (245 - 144) \<and>
   isFullScan (scanState toyManager1)"
  using updateTransactions_window [of toyManager0 toyEnv toyManager0 "[]"]
    updateTransactions_window [of toyManager1 toyEnv toyManager1 "[]"]
    updateTransactions_window [of "toyManager0 \<lparr> isConnected := True \<rparr>" toyEnv
      "toyManager1 \<lparr> requestIdGenerator := 1,
                     scanState := (scanState toyManager1) \<lparr> requestId := 1 \<rparr> \<rparr>"
      "[eventCallback SYNC_MANAGER_SYNC_STARTED,
        funcGetTransactions [''E0'', ''E1'', ''I0''] 100 245 1]"]
    toy_update_transactions toy_wallet_has_addresses
  by (simp add: toyManager0_def toyManager1_def BRClientSyncManagerScanStateIsInProgress_def
        INT_MAX_def)

section \<open>Rescan to low depth (C7)\<close>

text \<open>
  C7 as stated counts a send that is at least \<open>CONFIRMATION_BLOCK_COUNT = 6\<close> blocks deep.
  With the network height at 1000 and the wallet's only transaction a valid, confirmed
  send at height 994, six blocks deep, \<open>scanToDepth (Low)\<close> on a connected manager with
  \<open>initBlockHeight = 100\<close> sets \<open>syncedBlockHeight\<close> to 100, not to 994.
\<close>

theorem scanToDepth_low_six_deep_counterexample:
  "isConnected (toyManagerSend 994) \<and>
   networkBlockHeight (toyManagerSend 994) = 1000 \<and>
   initBlockHeight (toyManagerSend 994) = 100 \<and>
   BRWalletTransactions toyEnv (wallet (toyManagerSend 994)) = [toySend 994] \<and>
   BRWalletTransactionIsValid toyEnv (wallet (toyManagerSend 994)) (toySend 994) \<and>
   BRWalletAmountSentByTx toyEnv (wallet (toyManagerSend 994)) (toySend 994) = 1 \<and>
   blockHeight (toySend 994) = 994 \<and>
   TX_UNCONFIRMED toyEnv = 0x7FFFFFFF \<and>
   unat (networkBlockHeight (toyManagerSend 994)) - unat (blockHeight (toySend 994)) = 6 \<and>
   BRClientSyncManagerScanToDepth toyEnv (toyManagerSend 994) SYNC_DEPTH_LOW =
     Inr (toyManagerRescan 994 100,
          [eventCallback SYNC_MANAGER_DISCONNECTED, eventCallback SYNC_MANAGER_CONNECTED,
           funcGetBlockNumber 5, eventCallback SYNC_MANAGER_SYNC_STARTED,
           funcGetTransactions [''E0'', ''E1'', ''E2'', ''I0''] 100 1001 6]) \<and>
   syncedBlockHeight (toyManagerRescan 994 100) = 100"
  by code_simp

text \<open>
  C7, amended. When \<open>scanToDepth (Low)\<close> on a connected client-mode manager completes,
  \<open>syncedBlockHeight\<close> is the greatest block height among the wallet's transactions that
  are valid, send a non-zero amount, are confirmed, and lie strictly more than
  \<open>CONFIRMATION_BLOCK_COUNT = 6\<close> blocks below \<open>networkBlockHeight\<close> (taken in 32 bits,
  and at least 6), when there is such a transaction and that height is non-zero; it is
  \<open>initBlockHeight\<close> otherwise.
\<close>

theorem scanToDepth_low:
  assumes "isConnected m"
  shows "(\<exists>m1 out1. scanToDepthLocked env m SYNC_DEPTH_LOW = Inr (m1, out1) \<and>
                    syncedBlockHeight m1 = lowDepthHeight env m) \<and>
         (BRClientSyncManagerScanToDepth env m SYNC_DEPTH_LOW = Inr (m', out) \<longrightarrow>
            syncedBlockHeight m' = lowDepthHeight env m) \<and>
         CONFIRMATION_BLOCK_COUNT = 6"
proof -
  obtain m1 out1 where
    l: "scanToDepthLocked env m SYNC_DEPTH_LOW = Inr (m1, out1)"
    and s1: "syncedBlockHeight m1 =
       (if 0 = getLastConfirmedSendTxHeight env (wallet m) (ucast (networkBlockHeight m))
        then initBlockHeight m
        else ucast (getLastConfirmedSendTxHeight env (wallet m) (ucast (networkBlockHeight m))))"
    using assms by (auto simp: scanToDepthLocked_def Let_def)
  from s1 have low: "syncedBlockHeight m1 = lowDepthHeight env m"
    by (auto simp: getLastConfirmedSendTxHeight_Max lowDepthHeight_def)
  have "syncedBlockHeight m' = lowDepthHeight env m"
    if r: "BRClientSyncManagerScanToDepth env m SYNC_DEPTH_LOW = Inr (m', out)"
  proof -
    from r l obtain m2 out2 out3 where
      b: "BRClientSyncManagerUpdateBlockNumber m1 = Inr (m2, out2)"
      and t: "BRClientSyncManagerUpdateTransactions env m2 = Inr (m', out3)"
      unfolding BRClientSyncManagerScanToDepth_def
      by (auto dest!: andThen_Inr)
    from UpdateBlockNumber_frame [OF b] UpdateTransactions_frame [OF t] low
    show ?thesis by simp
  qed
  with l low show ?thesis
    by (auto simp: CONFIRMATION_BLOCK_COUNT_def)
qed

lemma toy_scan_low:
  "BRClientSyncManagerScanToDepth toyEnv (toyManagerSend 200) SYNC_DEPTH_LOW =
     Inr (toyManagerRescan 200 200,
          [eventCallback SYNC_MANAGER_DISCONNECTED, eventCallback SYNC_MANAGER_CONNECTED,
           funcGetBlockNumber 5, eventCallback SYNC_MANAGER_SYNC_STARTED,
           funcGetTransactions [''E0'', ''E1'', ''E2'', ''I0''] 200 1001 6])"
  by code_simp

lemma toy_confirmed_heights:
  "confirmedSendHeights toyEnv (wallet (toyManagerSend 200))
     (ucast (networkBlockHeight (toyManagerSend 200))) = [200]"
  by code_simp

theorem scanToDepth_low_witness:
  "isConnected (toyManagerSend 200) \<and>
   confirmedSendHeights toyEnv (wallet (toyManagerSend 200))
     (ucast (networkBlockHeight (toyManagerSend 200))) = [200] \<and>
   lowDepthHeight toyEnv (toyManagerSend 200) = 200 \<and>
   BRClientSyncManagerScanToDepth toyEnv (toyManagerSend 200) SYNC_DEPTH_LOW =
     Inr (toyManagerRescan 200 200,
          [eventCallback SYNC_MANAGER_DISCONNECTED, eventCallback SYNC_MANAGER_CONNECTED,
           funcGetBlockNumber 5, eventCallback SYNC_MANAGER_SYNC_STARTED,
           funcGetTransactions [''E0'', ''E1'', ''E2'', ''I0''] 200 1001 6]) \<and>
   syncedBlockHeight (toyManagerRescan 200 200) = lowDepthHeight toyEnv (toyManagerSend 200)"
proof -
  have c: "isConnected (toyManagerSend 200)" by (simp add: toyManagerSend_def)
  have n: "ucast (networkBlockHeight (toyManagerSend 200)) = (1000 :: uint32_t)"
    by (simp add: toyManagerSend_def)
  have h: "lowDepthHeight toyEnv (toyManagerSend 200) = 200"
    using toy_confirmed_heights n
    by (simp add: lowDepthHeight_def CONFIRMATION_BLOCK_COUNT_def)
  from scanToDepth_low [OF c, of toyEnv "toyManagerRescan 200 200"
      "[eventCallback SYNC_MANAGER_DISCONNECTED, eventCallback SYNC_MANAGER_CONNECTED,
        funcGetBlockNumber 5, eventCallback SYNC_MANAGER_SYNC_STARTED,
        funcGetTransactions [''E0'', ''E1'', ''E2'', ''I0''] 200 1001 6]"]
    c h toy_scan_low toy_confirmed_heights
  show ?thesis by simp
qed

section \<open>Completion of a query (C1)\<close>

text \<open>
  C1 as stated re-issues \<open>getTransactions\<close> whenever a first unused address differs from
  the captured pair. In the run connect, one announced transaction on \<open>E0\<close>, done (which
  re-issues the query for \<open>E2\<close> and captures \<open>E1\<close>), followed by the owner removing the
  transaction from the wallet, the first unused external address is \<open>E0\<close> and differs
  from the captured \<open>E1\<close>, yet every wallet address is already known: the next
  \<open>announceGetTransactionsDone (2, success)\<close> calls the client no more, sets
  \<open>syncedBlockHeight\<close> to 244, emits \<open>SyncStopped {0}\<close> and wipes the scan state.
\<close>

theorem announceGetTransactionsDone_changed_pair_counterexample:
  "run toyEnv toyManager0
     [Connect, AnnounceGetTransactionsItem 2 [7, 1] 5 200, AnnounceGetTransactionsDone 2 1,
      WalletChanged toyWalletRemoved] =
     Inr (toyManagerRemoved,
          [eventCallback SYNC_MANAGER_CONNECTED, funcGetBlockNumber 1,
           eventCallback SYNC_MANAGER_SYNC_STARTED,
           funcGetTransactions [''E0'', ''E1'', ''I0''] 100 245 2,
           funcGetTransactions [''E2''] 100 245 2]) \<and>
   isConnected toyManagerRemoved \<and>
   requestId (scanState toyManagerRemoved) = 2 \<and>
   lastExternalAddress (scanState toyManagerRemoved) = ''E1'' \<and>
   currentFirstUnused toyEnv (wallet toyManagerRemoved) = (toyWalletRemoved, ''E0'', ''I0'') \<and>
   ''E0'' \<noteq> ''E1'' \<and>
   BRClientSyncManagerAnnounceGetTransactionsDone toyEnv toyManagerRemoved 2 1 =
     Inr (toyManagerRemoved
            \<lparr> syncedBlockHeight := 244,
              scanState := BRClientSyncManagerScanStateWipe (scanState toyManagerRemoved) \<rparr>,
          [eventCallback (SYNC_MANAGER_SYNC_STOPPED 0)])"
  by code_simp

text \<open>
  C1, amended. Let \<open>announceGetTransactionsDone (rid, success)\<close> be called with a non-zero
  \<open>success\<close> on a connected manager whose scan state holds the request id \<open>rid\<close> and an
  address set. If the first unused external or internal address differs from the
  captured pair and some wallet address, in native or legacy form, is not yet in the
  address set, the manager calls \<open>getTransactions\<close> with the same \<open>rid\<close>, the same window
  and exactly the wallet addresses not yet in the set, each once; it captures the new
  pair and adds those addresses to the set. Otherwise, that is when the pair is
  unchanged or no wallet address is new, it sets \<open>syncedBlockHeight\<close> to
  \<open>endBlockNumber - 1\<close>, emits \<open>SyncStopped {0}\<close> exactly when the scan was a full scan, and
  wipes the scan state.
\<close>

theorem announceGetTransactionsDone_success:
  assumes conn: "isConnected m" and rid: "rid = requestId (scanState m)"
    and succ: "success \<noteq> 0"
    and known: "knownAddresses (scanState m) = Some known"
    and cur: "currentFirstUnused env (wallet m) = (w, extA, intA)"
  shows "if (extA \<noteq> lastExternalAddress (scanState m) \<or>
             intA \<noteq> lastInternalAddress (scanState m)) \<and>
            \<not> set (getWalletAddresses env w) \<subseteq> set known
         then \<exists>new. set new = set (getWalletAddresses env w) - set known \<and> distinct new \<and>
                BRClientSyncManagerAnnounceGetTransactionsDone env m rid success =
                  Inr (m \<lparr> wallet := w,
                            scanState := (scanState m)
                              \<lparr> lastExternalAddress := extA, lastInternalAddress := intA,
                                knownAddresses := Some (known @ new) \<rparr> \<rparr>,
                       [funcGetTransactions new (begBlockNumber (scanState m))
                          (endBlockNumber (scanState m)) rid])
         else BRClientSyncManagerAnnounceGetTransactionsDone env m rid success =
                Inr (m \<lparr> wallet := w,
                          syncedBlockHeight := endBlockNumber (scanState m) - 1,
                          scanState := BRClientSyncManagerScanStateWipe (scanState m) \<rparr>,
                     if isFullScan (scanState m)
                     then [eventCallback (SYNC_MANAGER_SYNC_STOPPED 0)] else [])"
proof -
  from Advance_known [OF known cur] obtain new where
    n: "set new = set (getWalletAddresses env w) - set known" "distinct new"
    and a: "BRClientSyncManagerScanStateAdvanceAndGetNewAddresses env (scanState m) (wallet m) =
              (if extA \<noteq> lastExternalAddress (scanState m) \<or>
                  intA \<noteq> lastInternalAddress (scanState m)
               then Inr ((scanState m) \<lparr> lastExternalAddress := extA,
                                          lastInternalAddress := intA,
                                          knownAddresses := Some (known @ new) \<rparr>, w, Some new)
               else Inr (scanState m, w, None))"
    by blast
  have e: "new = [] \<longleftrightarrow> set (getWalletAddresses env w) \<subseteq> set known"
    using n(1) by (metis Diff_eq_empty_iff set_empty)
  have wipe: "\<And>a b. BRClientSyncManagerScanStateWipe a = BRClientSyncManagerScanStateWipe b"
    by (simp add: BRClientSyncManagerScanStateWipe_def)
  show ?thesis
  proof (cases "extA \<noteq> lastExternalAddress (scanState m) \<or>
                intA \<noteq> lastInternalAddress (scanState m)")
    case False
    with a conn rid succ show ?thesis
      by (simp add: BRClientSyncManagerAnnounceGetTransactionsDone_def
            BRClientSyncManagerScanStateGetRequestId_def
            BRClientSyncManagerScanStateGetSyncedBlockNumber_def
            BRClientSyncManagerScanStateIsFullScan_def)
  next
    case changed: True
    show ?thesis
    proof (cases "new = []")
      case True
      with changed a conn rid succ e wipe [of _ "scanState m"] show ?thesis
        by (simp add: BRClientSyncManagerAnnounceGetTransactionsDone_def
              BRClientSyncManagerScanStateGetRequestId_def
              BRClientSyncManagerScanStateGetSyncedBlockNumber_def
              BRClientSyncManagerScanStateIsFullScan_def)
    next
      case False
      with changed a conn rid succ have
        "BRClientSyncManagerAnnounceGetTransactionsDone env m rid success =
           Inr (m \<lparr> wallet := w,
                     scanState := (scanState m)
                       \<lparr> lastExternalAddress := extA, lastInternalAddress := intA,
                         knownAddresses := Some (known @ new) \<rparr> \<rparr>,
                [funcGetTransactions new (begBlockNumber (scanState m))
                   (endBlockNumber (scanState m)) rid])"
        by (simp add: BRClientSyncManagerAnnounceGetTransactionsDone_def
              BRClientSyncManagerScanStateGetRequestId_def
              BRClientSyncManagerScanStateGetStartBlockNumber_def
              BRClientSyncManagerScanStateGetEndBlockNumber_def)
      with changed False e n show ?thesis by auto
    qed
  qed
qed

lemma toy_done_reissue:
  "currentFirstUnused toyEnv (wallet toyManagerItem) = (toyWalletUsed, ''E1'', ''I0'')"
  "getWalletAddresses toyEnv toyWalletUsed =
     [''E0'', ''E1'', ''E2'', ''I0'', ''E0'', ''E1'', ''E2'', ''I0'']"
  "BRClientSyncManagerAnnounceGetTransactionsDone toyEnv toyManagerItem 2 1 =
     Inr (toyManagerReissued, [funcGetTransactions [''E2''] 100 245 2])"
  by code_simp+

lemma toy_done_stable:
  "currentFirstUnused toyEnv (wallet toyManager1) = (wallet toyManager1, ''E0'', ''I0'')"
  "BRClientSyncManagerAnnounceGetTransactionsDone toyEnv toyManager1 2 1 =
     Inr (toyManager1
            \<lparr> syncedBlockHeight := 244,
              scanState := BRClientSyncManagerScanStateWipe (scanState toyManager1) \<rparr>,
          [eventCallback (SYNC_MANAGER_SYNC_STOPPED 0)])"
  by code_simp+

theorem announceGetTransactionsDone_success_witness:
  "isConnected toyManagerItem \<and> (2 :: int) = requestId (scanState toyManagerItem) \<and>
   knownAddresses (scanState toyManagerItem) = Some [''E0'', ''E1'', ''I0''] \<and>
   lastExternalAddress (scanState toyManagerItem) = ''E0'' \<and>
   currentFirstUnused toyEnv (wallet toyManagerItem) = (toyWalletUsed, ''E1'', ''I0'') \<and>
   BRClientSyncManagerAnnounceGetTransactionsDone toyEnv toyManagerItem 2 1 =
     Inr (toyManagerReissued, [funcGetTransactions [''E2''] 100 245 2]) \<and>
   isConnected toyManager1 \<and> (2 :: int) = requestId (scanState toyManager1) \<and>
   knownAddresses (scanState toyManager1) = Some [''E0'', ''E1'', ''I0''] \<and>
   currentFirstUnused toyEnv (wallet toyManager1) = (wallet toyManager1, ''E0'', ''I0'') \<and>
   BRClientSyncManagerAnnounceGetTransactionsDone toyEnv toyManager1 2 1 =
     Inr (toyManager1
            \<lparr> syncedBlockHeight := 244,
              scanState := BRClientSyncManagerScanStateWipe (scanState toyManager1) \<rparr>,
          [eventCallback (SYNC_MANAGER_SYNC_STOPPED 0)])"
proof -
  have c: "isConnected toyManagerItem" "(2 :: int) = requestId (scanState toyManagerItem)"
    "(1 :: int) \<noteq> 0"
    "knownAddresses (scanState toyManagerItem) = Some [''E0'', ''E1'', ''I0'']"
    "lastExternalAddress (scanState toyManagerItem) = ''E0''"
    by (simp_all add: toyManagerItem_def toyManager1_def)
  have d: "isConnected toyManager1" "(2 :: int) = requestId (scanState toyManager1)"
    "knownAddresses (scanState toyManager1) = Some [''E0'', ''E1'', ''I0'']"
    by (simp_all add: toyManager1_def)
  from announceGetTransactionsDone_success [OF c(1) c(2) c(3) c(4) toy_done_reissue(1)]
    announceGetTransactionsDone_success [OF d(1) d(2) c(3) d(3) toy_done_stable(1)]
    c d toy_done_reissue toy_done_stable
  show ?thesis by simp
qed

section \<open>Request ids (C9)\<close>

text \<open>
  C9 as stated makes the ids handed to the client callbacks strictly increasing. In the
  run connect, one announced transaction, done, the manager created for the small wallet
  hands out the ids 1 (\<open>getBlockNumber\<close>), 2 (\<open>getTransactions\<close>) and 2 again
  (\<open>getTransactions\<close> re-issued for the new address), which is not strictly increasing.
\<close>

theorem request_ids_strictly_increasing_counterexample:
  "BRClientSyncManagerNew toyEnv toyWallet0 2000000 244 = Inr toyManager0 \<and>
   run toyEnv toyManager0
     [Connect, AnnounceGetTransactionsItem 2 [7, 1] 5 200, AnnounceGetTransactionsDone 2 1] =
     Inr (toyManagerReissued,
          [eventCallback SYNC_MANAGER_CONNECTED, funcGetBlockNumber 1,
           eventCallback SYNC_MANAGER_SYNC_STARTED,
           funcGetTransactions [''E0'', ''E1'', ''I0''] 100 245 2,
           funcGetTransactions [''E2''] 100 245 2]) \<and>
   clientRequestIds
     [eventCallback SYNC_MANAGER_CONNECTED, funcGetBlockNumber 1,
      eventCallback SYNC_MANAGER_SYNC_STARTED,
      funcGetTransactions [''E0'', ''E1'', ''I0''] 100 245 2,
      funcGetTransactions [''E2''] 100 245 2] = [1, 2, 2] \<and>
   \<not> sorted_wrt (<) [1 :: int, 2, 2]"
  by code_simp

text \<open>
  C9, amended. For a client-mode manager created by \<open>BRClientSyncManagerNew\<close>, the
  request ids are generated under the lock in strictly increasing order and are positive:
  along every sequence of locked sections, up to the first fault, each id handed to
  \<open>getBlockNumber\<close> by \<open>updateBlockNumber\<close>, to \<open>submitTransaction\<close> by \<open>submit\<close> and to
  \<open>getTransactions\<close> by \<open>updateTransactions\<close> (the start of a scan) is strictly greater
  than every id generated before it; the only other id handed to the client is the one
  \<open>announceGetTransactionsDone\<close> hands to the re-issued \<open>getTransactions\<close>, which is the id
  of the \<open>getTransactions\<close> call that started the latest scan; and every id is positive.
  A sequence of operations that runs to its end makes exactly the callbacks of the log of
  its sections, in the same order, so with operations that do not overlap the client
  receives the ids in the order of their generation.
\<close>

theorem request_ids_in_generation_order:
  assumes "BRClientSyncManagerNew env w earliestKeyTime height = Inr m0"
  shows "idsInOrder (sectionLog env m0 secs) \<and>
         list_all (\<lambda>r. 0 < r) (clientRequestIds (concat (map snd (sectionLog env m0 secs)))) \<and>
         (run env m0 ops = Inr (m', out) \<longrightarrow>
            out = concat (map snd (sectionLog env m0 (concat (map sectionsOf ops)))))"
  using log_accepted [OF New_tracks [OF assms], of env secs] run_sections [of env m0 ops m' out]
  by (simp add: idsInOrder_def)

text \<open>The monitor tells the start of a scan from a re-issue: it rejects a log in which
  \<open>updateTransactions\<close> starts a scan with an id handed out before, and a log in which
  \<open>announceGetTransactionsDone\<close> re-issues the query with the id of an earlier scan.\<close>

lemma monitor_rejects_reused_id:
  "\<not> idsInOrder
       [(SecUpdateBlockNumber, [funcGetBlockNumber 1]),
        (SecUpdateTransactions, [funcGetTransactions [''E0''] 100 245 2]),
        (SecUpdateBlockNumber, [funcGetBlockNumber 3]),
        (SecUpdateTransactions, [funcGetTransactions [''E0''] 100 245 2]) ::
          toyWallet lockedSection \<times> callback list]"
  by code_simp

lemma monitor_rejects_stale_reissue:
  "\<not> idsInOrder
       [(SecUpdateTransactions, [funcGetTransactions [''E0''] 100 245 1]),
        (SecDisconnect, [eventCallback SYNC_MANAGER_DISCONNECTED]),
        (SecUpdateTransactions, [funcGetTransactions [''E0''] 100 245 2]),
        (SecAnnounceGetTransactionsDone 1 1, [funcGetTransactions [''E1''] 100 245 1]) ::
          toyWallet lockedSection \<times> callback list]"
  by code_simp

text \<open>Two operations that overlap: a \<open>submit\<close> enters the lock between the sections of a
  \<open>connect\<close>; later sections re-issue the query, finish the scan and start the next.\<close>

lemma toy_section_log:
  "sectionLog toyEnv toyManager0
     [SecConnect, SecUpdateBlockNumber, SecSubmit (toySend 0), SecUpdateTransactions,
      SecAnnounceGetTransactionsItem 3 [7, 1] 5 200, SecAnnounceGetTransactionsDone 3 1,
      SecAnnounceGetTransactionsDone 3 1, SecUpdateBlockNumber, SecUpdateTransactions] =
     [(SecConnect, [eventCallback SYNC_MANAGER_CONNECTED]),
      (SecUpdateBlockNumber, [funcGetBlockNumber 1]),
      (SecSubmit (toySend 0), [funcSubmitTransaction [7, 1] 7 2]),
      (SecUpdateTransactions,
       [eventCallback SYNC_MANAGER_SYNC_STARTED,
        funcGetTransactions [''E0'', ''E1'', ''I0''] 100 245 3]),
      (SecAnnounceGetTransactionsItem 3 [7, 1] 5 200, []),
      (SecAnnounceGetTransactionsDone 3 1, [funcGetTransactions [''E2''] 100 245 3]),
      (SecAnnounceGetTransactionsDone 3 1, [eventCallback (SYNC_MANAGER_SYNC_STOPPED 0)]),
      (SecUpdateBlockNumber, [funcGetBlockNumber 4]),
      (SecUpdateTransactions,
       [funcGetTransactions [''E0'', ''E1'', ''E2'', ''I0''] 101 245 5])]"
  by code_simp

lemma toy_run_ids:
  "run toyEnv toyManager0
     [Connect, AnnounceGetTransactionsItem 2 [7, 1] 5 200, AnnounceGetTransactionsDone 2 1] =
     Inr (toyManagerReissued,
          [eventCallback SYNC_MANAGER_CONNECTED, funcGetBlockNumber 1,
           eventCallback SYNC_MANAGER_SYNC_STARTED,
           funcGetTransactions [''E0'', ''E1'', ''I0''] 100 245 2,
           funcGetTransactions [''E2''] 100 245 2])"
  by code_simp

theorem request_ids_in_generation_order_witness:
  "BRClientSyncManagerNew toyEnv toyWallet0 2000000 244 = Inr toyManager0 \<and>
   idsInOrder
     [(SecConnect, [eventCallback SYNC_MANAGER_CONNECTED]),
      (SecUpdateBlockNumber, [funcGetBlockNumber 1]),
      (SecSubmit (toySend 0), [funcSubmitTransaction [7, 1] 7 2]),
      (SecUpdateTransactions,
       [eventCallback SYNC_MANAGER_SYNC_STARTED,
        funcGetTransactions [''E0'', ''E1'', ''I0''] 100 245 3]),
      (SecAnnounceGetTransactionsItem 3 [7, 1] 5 200, []),
      (SecAnnounceGetTransactionsDone 3 1, [funcGetTransactions [''E2''] 100 245 3]),
      (SecAnnounceGetTransactionsDone 3 1, [eventCallback (SYNC_MANAGER_SYNC_STOPPED 0)]),
      (SecUpdateBlockNumber, [funcGetBlockNumber 4]),
      (SecUpdateTransactions,
       [funcGetTransactions [''E0'', ''E1'', ''E2'', ''I0''] 101 245 5]) ::
        toyWallet lockedSection \<times> callback list] \<and>
   run toyEnv toyManager0
     [Connect, AnnounceGetTransactionsItem 2 [7, 1] 5 200, AnnounceGetTransactionsDone 2 1] =
     Inr (toyManagerReissued,
          [eventCallback SYNC_MANAGER_CONNECTED, funcGetBlockNumber 1,
           eventCallback SYNC_MANAGER_SYNC_STARTED,
           funcGetTransactions [''E0'', ''E1'', ''I0''] 100 245 2,
           funcGetTransactions [''E2''] 100 245 2]) \<and>
   [eventCallback SYNC_MANAGER_CONNECTED, funcGetBlockNumber 1,
    eventCallback SYNC_MANAGER_SYNC_STARTED,
    funcGetTransactions [''E0'', ''E1'', ''I0''] 100 245 2,
    funcGetTransactions [''E2''] 100 245 2] =
     concat (map snd (sectionLog toyEnv toyManager0
       (concat (map sectionsOf
          [Connect, AnnounceGetTransactionsItem 2 [7, 1] 5 200,
           AnnounceGetTransactionsDone 2 1]))))"
proof -
  let ?secs = "[SecConnect, SecUpdateBlockNumber, SecSubmit (toySend 0),
        SecUpdateTransactions, SecAnnounceGetTransactionsItem 3 [7, 1] 5 200,
        SecAnnounceGetTransactionsDone 3 1, SecAnnounceGetTransactionsDone 3 1,
        SecUpdateBlockNumber, SecUpdateTransactions] :: toyWallet lockedSection list"
  let ?ops = "[Connect, AnnounceGetTransactionsItem 2 [7, 1] 5 200,
        AnnounceGetTransactionsDone 2 1] :: toyWallet operation list"
  let ?out = "[eventCallback SYNC_MANAGER_CONNECTED, funcGetBlockNumber 1,
        eventCallback SYNC_MANAGER_SYNC_STARTED,
        funcGetTransactions [''E0'', ''E1'', ''I0''] 100 245 2,
        funcGetTransactions [''E2''] 100 245 2]"
  note t = request_ids_in_generation_order [OF toy_new, where secs = ?secs and ops = ?ops
      and m' = toyManagerReissued and out = ?out]
  from t have "idsInOrder (sectionLog toyEnv toyManager0 ?secs)" by blast
  then have a: "idsInOrder
     [(SecConnect, [eventCallback SYNC_MANAGER_CONNECTED]),
      (SecUpdateBlockNumber, [funcGetBlockNumber 1]),
      (SecSubmit (toySend 0), [funcSubmitTransaction [7, 1] 7 2]),
      (SecUpdateTransactions,
       [eventCallback SYNC_MANAGER_SYNC_STARTED,
        funcGetTransactions [''E0'', ''E1'', ''I0''] 100 245 3]),
      (SecAnnounceGetTransactionsItem 3 [7, 1] 5 200, []),
      (SecAnnounceGetTransactionsDone 3 1, [funcGetTransactions [''E2''] 100 245 3]),
      (SecAnnounceGetTransactionsDone 3 1, [eventCallback (SYNC_MANAGER_SYNC_STOPPED 0)]),
      (SecUpdateBlockNumber, [funcGetBlockNumber 4]),
      (SecUpdateTransactions,
       [funcGetTransactions [''E0'', ''E1'', ''E2'', ''I0''] 101 245 5]) ::
        toyWallet lockedSection \<times> callback list]"
    by (simp only: toy_section_log)
  from t toy_run_ids have
    b: "?out = concat (map snd (sectionLog toyEnv toyManager0 (concat (map sectionsOf ?ops))))"
    by blast
  from toy_new a toy_run_ids b show ?thesis by blast
qed

end
